theory Spec2Isabelle
  imports Main "HOL-Library.Finite_Map"
begin

section \<open>Data model\<close>

text \<open>
  A Go \<open>error\<close> value is modelled by the message that its \<open>Error()\<close> method returns;
  a nil error is \<open>None\<close> of type \<open>goerror option\<close>.
\<close>

datatype goerror = GoError string

fun Error :: "goerror \<Rightarrow> string" where
  "Error (GoError s) = s"

text \<open>
  Modelled from the spec: the types \<open>conf.Config\<close>, \<open>conf.ServerConfig\<close> and
  \<open>conf.ProxyConfig\<close> are declared in the package \<open>conf\<close>, which is not among the
  source files. A server record has the fields that \<open>connect.go\<close> reads, under the
  names it reads them by (the spec lists address, port, user, proxy reference, proxy
  kind and X11 flag); a proxy record has an address, a port and credentials; the
  configuration maps server names and proxy names to their records. A Go map is finite,
  so the two maps are finite maps; reading a missing key of a Go map yields the zero
  value of the element type.
\<close>

record ServerConfig =
  Addr :: string
  Port :: string
  User :: string
  Proxy :: string
  ProxyType :: string
  ProxyCommand :: string
  SSHAgentUse :: bool
  AgentAuth :: bool
  X11 :: bool

record ProxyConfig =
  pAddr :: string
  pPort :: string
  pUser :: string
  pPass :: string

record Config =
  conf_Server :: "(string, ServerConfig) fmap"
  conf_Proxy :: "(string, ProxyConfig) fmap"

definition zeroServerConfig :: ServerConfig where
  "zeroServerConfig =
     \<lparr>Addr = [], Port = [], User = [], Proxy = [], ProxyType = [], ProxyCommand = [],
      SSHAgentUse = False, AgentAuth = False, X11 = False\<rparr>"

text \<open>The two-result map read \<open>v, ok := m[k]\<close> on \<open>config.Server\<close>.\<close>

definition lookupServer :: "Config \<Rightarrow> string \<Rightarrow> ServerConfig \<times> bool" where
  "lookupServer config k =
     (case fmlookup (conf_Server config) k of
        None \<Rightarrow> (zeroServerConfig, False)
      | Some sc \<Rightarrow> (sc, True))"

section \<open>GetProxyList\<close>

text \<open>\<open>GetProxyList\<close> is the function of \<open>ssh/connect.go\<close>, lines 400 to 457.\<close>

text \<open>The case label \<open>"http", "https", "socks5"\<close> of both switches.\<close>

definition isTunnelType :: "string \<Rightarrow> bool" where
  "isTunnelType t = (t = ''http'' \<or> t = ''https'' \<or> t = ''socks5'')"

text \<open>
  One pass through the body of the \<open>for\<close> loop up to the two exits: the values of
  \<open>isOk\<close>, \<open>preProxy\<close> and \<open>preProxyType\<close> after the first switch.
\<close>

definition preProxyOf :: "Config \<Rightarrow> string \<Rightarrow> string \<Rightarrow> bool \<times> string \<times> string" where
  "preProxyOf config targetServer targetType =
     (if isTunnelType targetType
      then (fmlookup (conf_Proxy config) targetServer \<noteq> None, [], [])
      else (let (preProxyConf, isOk) = lookupServer config targetServer
            in (isOk, Proxy preProxyConf, ProxyType preProxyConf)))"

text \<open>The second switch: the kind stored in \<open>proxy.Type\<close>.\<close>

definition hopType :: "string \<Rightarrow> string" where
  "hopType preProxyType = (if isTunnelType preProxyType then preProxyType else ''ssh'')"

text \<open>
  The \<open>for\<close> loop. It has no bound, so it is a partial function: \<open>None\<close> is the
  walk that never leaves the loop. \<open>Inl\<close> is the error return
  \<open>nil, nil, err\<close>; \<open>Inr\<close> carries \<open>proxyList\<close> and \<open>proxyType\<close> at the \<open>break\<close>.
\<close>

partial_function (option) GetProxyList_loop ::
  "Config \<Rightarrow> string \<Rightarrow> string \<Rightarrow> string list \<Rightarrow> (string, string) fmap
     \<Rightarrow> (goerror + string list \<times> (string, string) fmap) option" where
  "GetProxyList_loop config targetServer targetType proxyList proxyType =
     (case preProxyOf config targetServer targetType of
        (isOk, preProxy, preProxyType) \<Rightarrow>
          if preProxy = [] then Some (Inr (proxyList, proxyType))
          else if \<not> isOk then Some (Inl (GoError (''Not Found proxy : '' @ targetServer)))
          else GetProxyList_loop config preProxy (hopType preProxyType)
                 (proxyList @ [preProxy]) (fmupd preProxy (hopType preProxyType) proxyType))"

declare GetProxyList_loop.simps [code]

text \<open>
  The in-place reversal \<open>for i, j := 0, len(proxyList)-1; i < j; i, j = i+1, j-1\<close>.
  Both indices are Go \<open>int\<close>s; \<open>j\<close> starts at \<open>-1\<close> on the empty slice.
\<close>

function reverse_loop :: "int \<Rightarrow> int \<Rightarrow> 'a list \<Rightarrow> 'a list" where
  "reverse_loop i j xs =
     (if i < j
      then reverse_loop (i + 1) (j - 1) (xs[nat i := xs ! nat j, nat j := xs ! nat i])
      else xs)"
  by pat_completeness auto
termination
  by (relation "measure (\<lambda>(i, j, xs). nat (j - i))") auto

declare reverse_loop.simps [simp del]

definition GetProxyList ::
  "string \<Rightarrow> Config \<Rightarrow> (goerror + string list \<times> (string, string) fmap) option" where
  "GetProxyList server config =
     (case GetProxyList_loop config server [] [] fmempty of
        None \<Rightarrow> None
      | Some (Inl err) \<Rightarrow> Some (Inl err)
      | Some (Inr (proxyList, proxyType)) \<Rightarrow>
          Some (Inr (reverse_loop 0 (int (length proxyList) - 1) proxyList, proxyType)))"

subsection \<open>The proxy-reference graph\<close>

text \<open>
  The graph the walk follows: an edge from a server entry to the name in its
  \<open>Proxy\<close> field, when that field is not empty. A configuration is acyclic from a
  server when no name reachable from it lies on a cycle of this graph.
\<close>

definition proxyRef :: "Config \<Rightarrow> (string \<times> string) set" where
  "proxyRef config =
     {(n, p). \<exists>sc. fmlookup (conf_Server config) n = Some sc \<and> Proxy sc = p \<and> p \<noteq> []}"

definition acyclicFrom :: "Config \<Rightarrow> string \<Rightarrow> bool" where
  "acyclicFrom config server =
     (\<forall>n. (server, n) \<in> (proxyRef config)\<^sup>* \<longrightarrow> (n, n) \<notin> (proxyRef config)\<^sup>+)"

subsection \<open>Example configurations\<close>

text \<open>Server \<open>web\<close> names the proxy \<open>ghost\<close>, which no entry defines.\<close>

definition cfgGhost :: Config where
  "cfgGhost =
     \<lparr>conf_Server = fmupd ''web'' (zeroServerConfig\<lparr>Proxy := ''ghost''\<rparr>) fmempty,
      conf_Proxy = fmempty\<rparr>"

text \<open>Server \<open>a\<close> names itself as its proxy.\<close>

definition cfgCycle :: Config where
  "cfgCycle =
     \<lparr>conf_Server = fmupd ''a'' (zeroServerConfig\<lparr>Proxy := ''a''\<rparr>) fmempty,
      conf_Proxy = fmempty\<rparr>"

text \<open>Server \<open>web\<close> is reached through the server \<open>bastion\<close>, which is dialed directly.\<close>

definition cfgBastion :: Config where
  "cfgBastion =
     \<lparr>conf_Server =
        fmupd ''web'' (zeroServerConfig\<lparr>Addr := ''10.0.0.2'', Proxy := ''bastion''\<rparr>)
          (fmupd ''bastion'' (zeroServerConfig\<lparr>Addr := ''10.0.0.1''\<rparr>) fmempty),
      conf_Proxy = fmempty\<rparr>"

text \<open>
  Server \<open>web\<close> is reached through the server \<open>A\<close>, which is reached through
  the socks5 proxy \<open>B\<close>.
\<close>

definition cfgSocks :: Config where
  "cfgSocks =
     \<lparr>conf_Server =
        fmupd ''web'' (zeroServerConfig\<lparr>Proxy := ''A''\<rparr>)
          (fmupd ''A'' (zeroServerConfig\<lparr>Proxy := ''B'', ProxyType := ''socks5''\<rparr>) fmempty),
      conf_Proxy =
        fmupd ''B'' \<lparr>pAddr = ''10.0.0.9'', pPort = ''1080'', pUser = [], pPass = []\<rparr> fmempty\<rparr>"

section \<open>Properties of GetProxyList\<close>

subsection \<open>The reversal loop\<close>

lemma reverse_loop_length: "length (reverse_loop i j xs) = length xs"
proof (induction i j xs rule: reverse_loop.induct)
  case (1 i j xs)
  then show ?case by (cases "i < j") (simp_all add: reverse_loop.simps[of i j xs])
qed

lemma reverse_loop_nth:
  "0 \<le> i \<Longrightarrow> j < int (length xs) \<Longrightarrow> k < length xs \<Longrightarrow>
   reverse_loop i j xs ! k =
     (if i \<le> int k \<and> int k \<le> j then xs ! nat (i + j - int k) else xs ! k)"
proof (induction i j xs arbitrary: k rule: reverse_loop.induct)
  case (1 i j xs)
  show ?case
  proof (cases "i < j")
    case False
    then have "i \<le> int k \<and> int k \<le> j \<Longrightarrow> nat (i + j - int k) = k" by linarith
    with False show ?thesis by (simp add: reverse_loop.simps[of i j xs])
  next
    case True
    let ?ys = "xs[nat i := xs ! nat j, nat j := xs ! nat i]"
    have IH: "reverse_loop (i + 1) (j - 1) ?ys ! k =
       (if i + 1 \<le> int k \<and> int k \<le> j - 1 then ?ys ! nat (i + 1 + (j - 1) - int k) else ?ys ! k)"
      using "1.IH"[OF True, of k] "1.prems" by simp
    have unf: "reverse_loop i j xs = reverse_loop (i + 1) (j - 1) ?ys"
      using True by (simp add: reverse_loop.simps[of i j xs])
    show ?thesis
      unfolding unf IH using True "1.prems"
      by (auto simp: nth_list_update nat_eq_iff)
  qed
qed

lemma reverse_loop_rev: "reverse_loop 0 (int (length xs) - 1) xs = rev xs"
proof (rule nth_equalityI)
  show "length (reverse_loop 0 (int (length xs) - 1) xs) = length (rev xs)"
    by (simp add: reverse_loop_length)
next
  fix k assume "k < length (reverse_loop 0 (int (length xs) - 1) xs)"
  then have k: "k < length xs" by (simp add: reverse_loop_length)
  then have "nat (int (length xs) - 1 - int k) = length xs - Suc k" by linarith
  with k show "reverse_loop 0 (int (length xs) - 1) xs ! k = rev xs ! k"
    by (simp add: reverse_loop_nth rev_nth)
qed

subsection \<open>One iteration of the walk\<close>

lemma preProxyOf_notOk: "preProxyOf config s t = (False, p, pt) \<Longrightarrow> p = []"
  by (auto simp: preProxyOf_def lookupServer_def zeroServerConfig_def
      split: if_splits option.splits)

lemma preProxyOf_ref:
  "preProxyOf config s t = (isOk, p, pt) \<Longrightarrow> p \<noteq> [] \<Longrightarrow>
   \<not> isTunnelType t \<and>
   (\<exists>sc. fmlookup (conf_Server config) s = Some sc \<and> Proxy sc = p \<and> ProxyType sc = pt)"
  by (auto simp: preProxyOf_def lookupServer_def zeroServerConfig_def
      split: if_splits option.splits)

lemma loop_step:
  "preProxyOf config s t = (isOk, p, pt) \<Longrightarrow> p \<noteq> [] \<Longrightarrow>
   GetProxyList_loop config s t l m =
     GetProxyList_loop config p (hopType pt) (l @ [p]) (fmupd p (hopType pt) m)"
  using preProxyOf_notOk[of config s t p pt]
  by (cases isOk) (simp_all add: GetProxyList_loop.simps[of config s t l m])

lemma loop_stop:
  "preProxyOf config s t = (isOk, [], pt) \<Longrightarrow>
   GetProxyList_loop config s t l m = Some (Inr (l, m))"
  by (simp add: GetProxyList_loop.simps[of config s t l m])

lemma GetProxyList_of_loop:
  "GetProxyList_loop config server [] [] fmempty = Some (Inr (l, m)) \<Longrightarrow>
   GetProxyList server config = Some (Inr (rev l, m))"
  by (simp add: GetProxyList_def reverse_loop_rev)

subsection \<open>The error return is never taken\<close>

lemma loop_no_error:
  assumes "GetProxyList_loop config s t l m = Some r"
  shows "\<exists>x. r = Inr x"
  using assms
proof (induct rule: GetProxyList_loop.raw_induct[rotated 1, consumes 1])
  case (1 f config s t l m r)
  obtain isOk p pt where pp: "preProxyOf config s t = (isOk, p, pt)"
    by (cases "preProxyOf config s t")
  show ?case
  proof (cases "p = []")
    case True
    with 1(2) pp show ?thesis by auto
  next
    case False
    with preProxyOf_notOk pp have "isOk" by (cases isOk) auto
    with False pp 1(2)
    have "f config p (hopType pt) (l @ [p]) (fmupd p (hopType pt) m) = Some r" by simp
    then show ?thesis by (rule 1(1))
  qed
qed

lemma GetProxyList_no_error: "GetProxyList server config \<noteq> Some (Inl err)"
proof
  assume a: "GetProxyList server config = Some (Inl err)"
  then obtain r where r: "GetProxyList_loop config server [] [] fmempty = Some r"
    by (auto simp: GetProxyList_def split: option.splits)
  from loop_no_error[OF r] obtain l m where "r = Inr (l, m)" by auto
  with r a show False by (simp add: GetProxyList_def)
qed

text \<open>
  C4. The claim: a walk that reaches a name defined neither as a server nor as a proxy
  makes GetProxyList return a "not found" error and a nil hop list. The code does not:
  the zero value read for the missing name has an empty \<open>Proxy\<close> field, so the
  \<open>break\<close> is taken before \<open>isOk\<close> is tested. At the configuration \<open>cfgGhost\<close>,
  where \<open>ghost\<close> is in neither map, the result is the hop list \<open>[ghost]\<close> of kind
  ssh and no error.
\<close>

theorem GetProxyList_unknown_ref_returns_hops:
  "fmlookup (conf_Server cfgGhost) ''ghost'' = None \<and>
   fmlookup (conf_Proxy cfgGhost) ''ghost'' = None \<and>
   GetProxyList ''web'' cfgGhost = Some (Inr ([''ghost''], fmupd ''ghost'' ''ssh'' fmempty))"
  by (simp add: GetProxyList_def GetProxyList_loop.simps preProxyOf_def lookupServer_def
      cfgGhost_def zeroServerConfig_def isTunnelType_def hopType_def reverse_loop.simps)

subsection \<open>Termination of the walk\<close>

lemma finite_proxyRef: "finite (proxyRef config)"
proof -
  have "proxyRef config \<subseteq>
      (\<lambda>n. (n, Proxy (the (fmlookup (conf_Server config) n)))) ` fmdom' (conf_Server config)"
    by (auto simp: proxyRef_def image_iff fmlookup_dom'_iff)
  then show ?thesis by (rule finite_subset) simp
qed

lemma loop_terminates:
  assumes ac: "acyclicFrom config server"
    and reach: "(server, s) \<in> (proxyRef config)\<^sup>*"
  shows "\<exists>r. GetProxyList_loop config s t l m = Some r"
proof -
  define R where
    "R = {(n, p). (n, p) \<in> proxyRef config \<and> (server, n) \<in> (proxyRef config)\<^sup>*}"
  have sub: "R \<subseteq> proxyRef config" by (auto simp: R_def)
  have fin: "finite R" using sub finite_proxyRef by (rule finite_subset)
  have acyc: "acyclic R"
  proof (rule acyclicI, rule allI, rule notI)
    fix x assume x: "(x, x) \<in> R\<^sup>+"
    then obtain y where "(x, y) \<in> R" by (meson tranclD)
    then have rx: "(server, x) \<in> (proxyRef config)\<^sup>*" by (simp add: R_def)
    from x sub have "(x, x) \<in> (proxyRef config)\<^sup>+" by (meson trancl_mono)
    with ac rx show False by (simp add: acyclicFrom_def)
  qed
  have wf: "wf (R\<inverse>)" using fin acyc by (rule finite_acyclic_wf_converse)
  from wf reach show ?thesis
  proof (induction s arbitrary: t l m rule: wf_induct_rule)
    case (less s)
    obtain isOk p pt where pp: "preProxyOf config s t = (isOk, p, pt)"
      by (cases "preProxyOf config s t")
    show ?case
    proof (cases "p = []")
      case True
      with pp loop_stop show ?thesis by blast
    next
      case False
      from preProxyOf_ref[OF pp False] have sp: "(s, p) \<in> proxyRef config"
        using False by (auto simp: proxyRef_def)
      with less.prems have "(p, s) \<in> R\<inverse>" and "(server, p) \<in> (proxyRef config)\<^sup>*"
        by (auto simp: R_def)
      then have "\<exists>r. GetProxyList_loop config p (hopType pt) (l @ [p])
                       (fmupd p (hopType pt) m) = Some r"
        by (rule less.IH)
      then show ?thesis by (simp add: loop_step[OF pp False])
    qed
  qed
qed

lemma GetProxyList_terminates:
  assumes "acyclicFrom config server"
  shows "\<exists>r. GetProxyList server config = Some r"
proof -
  from loop_terminates[OF assms, of server "[]" "[]" fmempty]
  obtain r where r: "GetProxyList_loop config server [] [] fmempty = Some r" by auto
  then show ?thesis by (cases r) (auto simp: GetProxyList_def)
qed

lemma cycle_loop_None:
  assumes "GetProxyList_loop config s t l m = Some r"
  shows "\<not> (config = cfgCycle \<and> s = ''a'' \<and> \<not> isTunnelType t)"
  using assms
proof (induct rule: GetProxyList_loop.raw_induct[rotated 1, consumes 1])
  case (1 f config s t l m r)
  show ?case
  proof
    assume a: "config = cfgCycle \<and> s = ''a'' \<and> \<not> isTunnelType t"
    then have pp: "preProxyOf config s t = (True, ''a'', [])"
      by (simp add: preProxyOf_def lookupServer_def cfgCycle_def zeroServerConfig_def)
    with 1(2) have "f config ''a'' (hopType []) (l @ [''a'']) (fmupd ''a'' (hopType []) m) = Some r"
      by simp
    from 1(1)[OF this] a show False by (simp add: hopType_def isTunnelType_def)
  qed
qed

lemma GetProxyList_cfgCycle: "GetProxyList ''a'' cfgCycle = None"
proof (cases "GetProxyList_loop cfgCycle ''a'' [] [] fmempty")
  case None
  then show ?thesis by (simp add: GetProxyList_def)
next
  case (Some r)
  from cycle_loop_None[OF this] show ?thesis by (simp add: isTunnelType_def)
qed

lemma proxyRef_cfgCycle: "proxyRef cfgCycle = {(''a'', ''a'')}"
  by (auto simp: proxyRef_def cfgCycle_def zeroServerConfig_def split: if_splits)

lemma proxyRef_cfgBastion: "proxyRef cfgBastion = {(''web'', ''bastion'')}"
  by (auto simp: proxyRef_def cfgBastion_def zeroServerConfig_def split: if_splits)

lemma no_loop_single: "a \<noteq> b \<Longrightarrow> (n, n) \<notin> {(a, b)}\<^sup>+"
proof
  assume ab: "a \<noteq> b" and n: "(n, n) \<in> {(a, b)}\<^sup>+"
  from tranclD[OF n] have "n = a" by auto
  moreover from tranclD2[OF n] have "n = b" by auto
  ultimately show False using ab by simp
qed

lemma acyclicFrom_cfgBastion: "acyclicFrom cfgBastion ''web''"
  by (simp add: acyclicFrom_def proxyRef_cfgBastion no_loop_single)

text \<open>
  C7. The walk has no cycle detection. It returns for every configuration whose
  proxy-reference graph has no cycle through a name reachable from the target, and on the
  configuration \<open>cfgCycle\<close>, in which the server entry \<open>a\<close> refers to itself, the
  walk from \<open>a\<close> never returns.
\<close>

theorem GetProxyList_no_cycle_detection:
  "(acyclicFrom config server \<longrightarrow> (\<exists>r. GetProxyList server config = Some r)) \<and>
   (''a'', ''a'') \<in> (proxyRef cfgCycle)\<^sup>+ \<and>
   fmlookup (conf_Server cfgCycle) ''a'' \<noteq> None \<and>
   GetProxyList ''a'' cfgCycle = None"
  using GetProxyList_terminates[of config server] GetProxyList_cfgCycle
  by (simp add: proxyRef_cfgCycle) (simp add: cfgCycle_def)

theorem GetProxyList_no_cycle_detection_witness:
  "acyclicFrom cfgBastion ''web'' \<and>
   GetProxyList ''web'' cfgBastion = Some (Inr ([''bastion''], fmupd ''bastion'' ''ssh'' fmempty))"
proof -
  have "\<exists>r. GetProxyList ''web'' cfgBastion = Some r"
    using GetProxyList_no_cycle_detection[of cfgBastion "''web''"]
      acyclicFrom_cfgBastion by blast
  moreover have "GetProxyList_loop cfgBastion ''web'' [] [] fmempty =
      Some (Inr ([''bastion''], fmupd ''bastion'' ''ssh'' fmempty))"
    by (simp add: GetProxyList_loop.simps preProxyOf_def lookupServer_def
        cfgBastion_def zeroServerConfig_def isTunnelType_def hopType_def)
  ultimately show ?thesis
    using acyclicFrom_cfgBastion by (simp add: GetProxyList_of_loop)
qed

subsection \<open>The hop list and the kind map\<close>



















lemma GetProxyList_cfgSocks:
  "GetProxyList ''web'' cfgSocks =
     Some (Inr ([''B'', ''A''], fmupd ''B'' ''socks5'' (fmupd ''A'' ''ssh'' fmempty)))"
proof -
  have "GetProxyList_loop cfgSocks ''web'' [] [] fmempty =
     Some (Inr ([''A'', ''B''], fmupd ''B'' ''socks5'' (fmupd ''A'' ''ssh'' fmempty)))"
    by (simp add: GetProxyList_loop.simps preProxyOf_def lookupServer_def
        cfgSocks_def zeroServerConfig_def isTunnelType_def hopType_def)
  then show ?thesis using GetProxyList_of_loop by fastforce
qed



text \<open>
  C2. The claim: with a target whose proxy reference is the plain server \<open>A\<close>, whose
  own proxy reference \<open>B\<close> is a socks5 proxy entry, GetProxyList returns the hop
  list \<open>[A, B]\<close> with kinds \<open>[ssh, socks5]\<close>. The code reverses the walk, so the
  result is in dial order: the list is \<open>[B, A]\<close> with kinds \<open>[socks5, ssh]\<close>.
\<close>

theorem proxy_chain_scenario_counterexample:
  "Proxy (the (fmlookup (conf_Server cfgSocks) ''web'')) = ''A'' \<and>
   Proxy (the (fmlookup (conf_Server cfgSocks) ''A'')) = ''B'' \<and>
   ProxyType (the (fmlookup (conf_Server cfgSocks) ''A'')) = ''socks5'' \<and>
   fmlookup (conf_Proxy cfgSocks) ''B'' \<noteq> None \<and>
   GetProxyList ''web'' cfgSocks =
     Some (Inr ([''B'', ''A''], fmupd ''B'' ''socks5'' (fmupd ''A'' ''ssh'' fmempty))) \<and>
   GetProxyList ''web'' cfgSocks \<noteq>
     Some (Inr ([''A'', ''B''], fmupd ''B'' ''socks5'' (fmupd ''A'' ''ssh'' fmempty)))"
  by (simp add: GetProxyList_cfgSocks) (simp add: cfgSocks_def zeroServerConfig_def)

text \<open>
  C2, amended. In that scenario GetProxyList returns the hop list \<open>[B, A]\<close>, the
  socks5 proxy first and the server next to the target last, with \<open>B\<close> of kind socks5
  and \<open>A\<close> of kind ssh.
\<close>

theorem proxy_chain_scenario:
  assumes "fmlookup (conf_Server config) server = Some sT"
    and "Proxy sT = A" and "\<not> isTunnelType (ProxyType sT)"
    and "fmlookup (conf_Server config) A = Some sA"
    and "Proxy sA = B" and "ProxyType sA = ''socks5''"
    and "fmlookup (conf_Proxy config) B \<noteq> None"
    and "A \<noteq> []" and "B \<noteq> []"
  shows "GetProxyList server config =
           Some (Inr ([B, A], fmupd B ''socks5'' (fmupd A ''ssh'' fmempty)))"
proof -
  have 1: "preProxyOf config server [] = (True, A, ProxyType sT)"
    using assms by (simp add: preProxyOf_def lookupServer_def isTunnelType_def)
  have 2: "preProxyOf config A ''ssh'' = (True, B, ''socks5'')"
    using assms by (simp add: preProxyOf_def lookupServer_def isTunnelType_def)
  have 3: "preProxyOf config B ''socks5'' = (True, [], [])"
    using assms by (simp add: preProxyOf_def isTunnelType_def)
  have h1: "hopType (ProxyType sT) = ''ssh''" using assms by (simp add: hopType_def)
  have h2: "hopType ''socks5'' = ''socks5''" by (simp add: hopType_def isTunnelType_def)
  have "GetProxyList_loop config server [] [] fmempty =
          Some (Inr ([A, B], fmupd B ''socks5'' (fmupd A ''ssh'' fmempty)))"
    using assms(8,9)
    by (simp add: loop_step[OF 1] h1 loop_step[OF 2] h2 loop_stop[OF 3])
  then show ?thesis using GetProxyList_of_loop by fastforce
qed

theorem proxy_chain_scenario_witness:
  "fmlookup (conf_Server cfgSocks) ''web'' = Some (zeroServerConfig\<lparr>Proxy := ''A''\<rparr>) \<and>
   fmlookup (conf_Server cfgSocks) ''A'' =
     Some (zeroServerConfig\<lparr>Proxy := ''B'', ProxyType := ''socks5''\<rparr>) \<and>
   fmlookup (conf_Proxy cfgSocks) ''B'' \<noteq> None \<and>
   GetProxyList ''web'' cfgSocks =
     Some (Inr ([''B'', ''A''], fmupd ''B'' ''socks5'' (fmupd ''A'' ''ssh'' fmempty)))"
proof -
  have 1: "fmlookup (conf_Server cfgSocks) ''web'' = Some (zeroServerConfig\<lparr>Proxy := ''A''\<rparr>)"
    by (simp add: cfgSocks_def)
  have 2: "fmlookup (conf_Server cfgSocks) ''A'' =
      Some (zeroServerConfig\<lparr>Proxy := ''B'', ProxyType := ''socks5''\<rparr>)"
    by (simp add: cfgSocks_def)
  have 3: "fmlookup (conf_Proxy cfgSocks) ''B'' \<noteq> None"
    by (simp add: cfgSocks_def)
  have 4: "\<not> isTunnelType (ProxyType (zeroServerConfig\<lparr>Proxy := ''A''\<rparr>))"
    by (simp add: isTunnelType_def zeroServerConfig_def)
  have "GetProxyList ''web'' cfgSocks =
     Some (Inr ([''B'', ''A''], fmupd ''B'' ''socks5'' (fmupd ''A'' ''ssh'' fmempty)))"
    by (rule proxy_chain_scenario[OF 1 _ 4 2 _ _ 3]) (simp_all add: zeroServerConfig_def)
  with 1 2 3 show ?thesis by simp
qed

section \<open>Connections and sessions\<close>

text \<open>
  The values of the SSH library are opaque handles. A Go function of several results is a
  tuple; a nil pointer or interface is \<open>None\<close>.
\<close>

datatype Client = Client nat
datatype Dialer = Dialer nat
datatype Session = Session nat
datatype Writer = Writer nat
datatype TermState = TermState nat

text \<open>The \<open>ssh.ClientConfig\<close> literal built by \<open>createClientConfig\<close>; the timeout in seconds.\<close>

record ClientConfig =
  ccUser :: string
  ccAuth :: "nat list"
  ccTimeout :: nat

text \<open>The fields of \<open>Connect\<close> that the modelled methods read or write.\<close>

record Connect =
  c_Server :: string
  c_Conf :: Config
  c_Client :: "Client option"
  c_IsLocalRc :: bool
  c_LocalRcData :: string
  c_LocalRcDecodeCmd :: string
  c_X11 :: bool

text \<open>
  The calls a run makes, in order: the calls that leave \<open>connect.go\<close>, and the entries
  to \<open>CreateClient\<close>. The calls that leave the file go to the SSH, terminal and
  standard libraries, and to functions of the package that are not among the source
  files: \<open>CreateSshAgent\<close>, \<open>createSshAuth\<close>, \<open>createProxyDialerHttp\<close>,
  \<open>createProxyDialerSocks5\<close>, \<open>createClientViaProxy\<close> and \<open>outColorStrings\<close>.
  Goroutine starts are recorded as calls too.
\<close>

datatype call =
    CallCreateClient
  | CallCreateSshAgent
  | CallCreateSshAuth string
  | CallDial string
  | CallProxyDialerHttp ProxyConfig
  | CallProxyDialerSocks5 ProxyConfig
  | CallViaProxy ServerConfig "Client option" "Dialer option"
  | CallSendRequest Client
  | CallNewSession Client
  | CallStdinPipe Session
  | CallMakeRaw int
  | CallRestore int "TermState option"
  | CallGetSize int
  | CallRequestPty Session string int int
  | CallShell Session
  | CallStart Session string
  | CallNotify
  | GoWindowChange Session
  | GoSendKeepAlive Session
  | CallWait Session

text \<open>
  The environment: what each outside call returns, as a function of the calls made so far
  and of its arguments, so that the same call may succeed once and fail later. The names
  are those of the functions called; all of them are parameters of the model.
\<close>

record Env =
  CreateSshAgent :: "call list \<Rightarrow> goerror option"
  createSshAuth :: "call list \<Rightarrow> string \<Rightarrow> nat list \<times> goerror option"
  ssh_Dial :: "call list \<Rightarrow> string \<Rightarrow> ClientConfig option \<Rightarrow> Client option \<times> goerror option"
  createProxyDialerHttp :: "call list \<Rightarrow> ProxyConfig \<Rightarrow> Dialer option \<times> goerror option"
  createProxyDialerSocks5 :: "call list \<Rightarrow> ProxyConfig \<Rightarrow> Dialer option \<times> goerror option"
  createClientViaProxy ::
    "call list \<Rightarrow> ServerConfig \<Rightarrow> ClientConfig option \<Rightarrow> Client option \<Rightarrow> Dialer option
       \<Rightarrow> Client option \<times> goerror option"
  SendRequest :: "call list \<Rightarrow> Client \<Rightarrow> goerror option"
  NewSession :: "call list \<Rightarrow> Client \<Rightarrow> Session option \<times> goerror option"
  StdinPipe :: "call list \<Rightarrow> Session \<Rightarrow> Writer option \<times> goerror option"
  outColorStrings :: "int \<Rightarrow> string \<Rightarrow> string"
  StdinFd :: int
  MakeRaw :: "call list \<Rightarrow> int \<Rightarrow> TermState option \<times> goerror option"
  GetSize :: "call list \<Rightarrow> int \<Rightarrow> int \<times> int \<times> goerror option"
  Getenv_TERM :: string
  RequestPty :: "call list \<Rightarrow> Session \<Rightarrow> string \<Rightarrow> int \<Rightarrow> int \<Rightarrow> goerror option"
  Shell :: "call list \<Rightarrow> Session \<Rightarrow> goerror option"
  Start :: "call list \<Rightarrow> Session \<Rightarrow> string \<Rightarrow> goerror option"
  GOOS :: string
  Wait :: "call list \<Rightarrow> Session \<Rightarrow> goerror option"

text \<open>
  How a call of a modelled method ends: it returns, it panics (a method called through a
  nil \<open>*ssh.Client\<close>), or it never returns (the hop walk).
\<close>

datatype 'a outcome = Returns 'a | Panics | Diverges

definition zeroProxyConfig :: ProxyConfig where
  "zeroProxyConfig = \<lparr>pAddr = [], pPort = [], pUser = [], pPass = []\<rparr>"

text \<open>The map reads \<open>c.Conf.Proxy[proxy]\<close> and \<open>proxyType[proxy]\<close>.\<close>

definition lookupProxy :: "Config \<Rightarrow> string \<Rightarrow> ProxyConfig" where
  "lookupProxy config k =
     (case fmlookup (conf_Proxy config) k of None \<Rightarrow> zeroProxyConfig | Some pc \<Rightarrow> pc)"

definition lookupType :: "(string, string) fmap \<Rightarrow> string \<Rightarrow> string" where
  "lookupType proxyType k = (case fmlookup proxyType k of None \<Rightarrow> [] | Some t \<Rightarrow> t)"

text \<open>\<open>net.JoinHostPort\<close>: the host in brackets when it holds a colon or a percent sign.\<close>

definition JoinHostPort :: "string \<Rightarrow> string \<Rightarrow> string" where
  "JoinHostPort host port =
     (if CHR '':'' \<in> set host \<or> CHR ''%'' \<in> set host
      then ''['' @ host @ '']:'' @ port
      else host @ '':'' @ port)"

subsection \<open>CheckClientAlive\<close>

text \<open>\<open>connect.go\<close>, lines 78 to 84.\<close>

definition CheckClientAlive :: "Env \<Rightarrow> Connect \<Rightarrow> call list \<Rightarrow> (goerror option \<times> call list) outcome" where
  "CheckClientAlive env c log =
     (case c_Client c of
        None \<Rightarrow> Panics
      | Some client \<Rightarrow>
          (let err = SendRequest env log client;
               log1 = log @ [CallSendRequest client]
           in case err of
                None \<Rightarrow> Returns (None, log1)
              | Some e \<Rightarrow>
                  if Error e = ''request failed'' then Returns (None, log1)
                  else Returns (err, log1)))"

subsection \<open>createClientConfig\<close>

text \<open>\<open>connect.go\<close>, lines 208 to 226. The configuration is returned together with the
  error of \<open>createSshAuth\<close> when that call yields both an error and some methods.\<close>

definition createClientConfig ::
  "Env \<Rightarrow> Connect \<Rightarrow> string \<Rightarrow> call list
     \<Rightarrow> (ClientConfig option \<times> goerror option) \<times> call list" where
  "createClientConfig env c server log =
     (let conf = fst (lookupServer (c_Conf c) server);
          (auth, err) = createSshAuth env log server;
          log1 = log @ [CallCreateSshAuth server]
      in if err \<noteq> None \<and> length auth = 0 then ((None, err), log1)
         else ((Some \<lparr>ccUser = User conf, ccAuth = auth, ccTimeout = 30\<rparr>, err), log1))"

subsection \<open>createClientOverProxy\<close>

text \<open>
  \<open>connect.go\<close>, lines 160 to 205. The loop \<open>for _, proxy := range proxyList\<close>. Its variables are \<open>proxyClient\<close>,
  \<open>proxyDialer\<close> and the function's result variable \<open>err\<close>. In the \<open>default\<close>
  case the statement \<open>proxySshConf, err := c.createClientConfig(proxy)\<close> declares a new
  \<open>err\<close> in the scope of the case clause; it is this inner variable
  (\<open>err1\<close>, then \<open>err2\<close> below) that \<open>createClientViaProxy\<close> assigns, and the test
  \<open>if err != nil\<close> after the switch reads the outer one. \<open>Inl\<close> is a \<open>return err\<close>
  inside the loop; \<open>Inr\<close> is the state after the last iteration.
\<close>

fun proxyLoop ::
  "Env \<Rightarrow> Connect \<Rightarrow> (string, string) fmap \<Rightarrow> string list
     \<Rightarrow> Client option \<Rightarrow> Dialer option \<Rightarrow> goerror option \<Rightarrow> call list
     \<Rightarrow> (goerror + Client option \<times> Dialer option) \<times> call list" where
  "proxyLoop env c proxyType [] proxyClient proxyDialer err log =
     (Inr (proxyClient, proxyDialer), log)"
| "proxyLoop env c proxyType (proxy # rest) proxyClient proxyDialer err log =
     (if lookupType proxyType proxy = ''http'' \<or> lookupType proxyType proxy = ''https'' then
        (let proxyConf = lookupProxy (c_Conf c) proxy;
             r = createProxyDialerHttp env log proxyConf;
             log1 = log @ [CallProxyDialerHttp proxyConf]
         in case snd r of
              Some e \<Rightarrow> (Inl e, log1)
            | None \<Rightarrow> proxyLoop env c proxyType rest proxyClient (fst r) (snd r) log1)
      else if lookupType proxyType proxy = ''socks5'' then
        (let proxyConf = lookupProxy (c_Conf c) proxy;
             r = createProxyDialerSocks5 env log proxyConf;
             log1 = log @ [CallProxyDialerSocks5 proxyConf]
         in case snd r of
              Some e \<Rightarrow> (Inl e, log1)
            | None \<Rightarrow> proxyLoop env c proxyType rest proxyClient (fst r) (snd r) log1)
      else
        (let proxyConf = fst (lookupServer (c_Conf c) proxy);
             cc = createClientConfig env c proxy log;
             proxySshConf = fst (fst cc);
             err1 = snd (fst cc);
             log1 = snd cc
         in case err1 of
              Some e \<Rightarrow> (Inl e, log1)
            | None \<Rightarrow>
                (let r = createClientViaProxy env log1 proxyConf proxySshConf proxyClient proxyDialer;
                     err2 = snd r;
                     log2 = log1 @ [CallViaProxy proxyConf proxyClient proxyDialer]
                 in case err of
                      Some e \<Rightarrow> (Inl e, log2)
                    | None \<Rightarrow> proxyLoop env c proxyType rest (fst r) proxyDialer err log2)))"

definition createClientOverProxy ::
  "Env \<Rightarrow> Connect \<Rightarrow> ServerConfig \<Rightarrow> ClientConfig option \<Rightarrow> call list
     \<Rightarrow> (goerror option \<times> Connect \<times> call list) outcome" where
  "createClientOverProxy env c serverConf sshConf log =
     (case GetProxyList (c_Server c) (c_Conf c) of
        None \<Rightarrow> Diverges
      | Some (Inl e) \<Rightarrow> Returns (Some e, c, log)
      | Some (Inr (proxyList, proxyType)) \<Rightarrow>
          (case proxyLoop env c proxyType proxyList None None None log of
             (Inl e, log1) \<Rightarrow> Returns (Some e, c, log1)
           | (Inr (proxyClient, proxyDialer), log1) \<Rightarrow>
               (let r = createClientViaProxy env log1 serverConf sshConf proxyClient proxyDialer;
                    log2 = log1 @ [CallViaProxy serverConf proxyClient proxyDialer]
                in case snd r of
                     Some e \<Rightarrow> Returns (Some e, c, log2)
                   | None \<Rightarrow> Returns (None, c\<lparr>c_Client := fst r\<rparr>, log2))))"

subsection \<open>CreateClient\<close>

text \<open>
  \<open>connect.go\<close>, lines 116 to 157. \<open>CreateClient_dial\<close> is the part of
  \<open>CreateClient\<close> after the client configuration is built: the default port, the
  direct dial or the proxy chain, and the copy of the X11 flag.
\<close>

definition CreateClient_dial ::
  "Env \<Rightarrow> Connect \<Rightarrow> ServerConfig \<Rightarrow> ClientConfig option \<Rightarrow> call list
     \<Rightarrow> (goerror option \<times> Connect \<times> call list) outcome" where
  "CreateClient_dial env c serverConf0 sshConf log =
     (let serverConf = (if Port serverConf0 = [] then serverConf0\<lparr>Port := ''22''\<rparr> else serverConf0)
      in if Proxy serverConf = [] \<and> ProxyCommand serverConf = [] then
           (let addr = JoinHostPort (Addr serverConf) (Port serverConf);
                r = ssh_Dial env log addr sshConf;
                log1 = log @ [CallDial addr]
            in case snd r of
                 Some e \<Rightarrow> Returns (Some e, c, log1)
               | None \<Rightarrow> Returns (None, c\<lparr>c_Client := fst r, c_X11 := X11 serverConf\<rparr>, log1))
         else
           (case createClientOverProxy env c serverConf sshConf log of
              Returns (Some e, c1, log1) \<Rightarrow> Returns (Some e, c1, log1)
            | Returns (None, c1, log1) \<Rightarrow> Returns (None, c1\<lparr>c_X11 := X11 serverConf\<rparr>, log1)
            | Panics \<Rightarrow> Panics
            | Diverges \<Rightarrow> Diverges))"

definition CreateClient ::
  "Env \<Rightarrow> Connect \<Rightarrow> call list \<Rightarrow> (goerror option \<times> Connect \<times> call list) outcome" where
  "CreateClient env c log0 =
     (let log = log0 @ [CallCreateClient];
          serverConf = fst (lookupServer (c_Conf c) (c_Server c));
          useAgent = (SSHAgentUse serverConf \<or> AgentAuth serverConf);
          agentErr = (if useAgent then CreateSshAgent env log else None);
          log1 = (if useAgent then log @ [CallCreateSshAgent] else log)
      in case agentErr of
           Some e \<Rightarrow> Returns (Some e, c, log1)
         | None \<Rightarrow>
             (let cc = createClientConfig env c (c_Server c) log1;
                  sshConf = fst (fst cc);
                  err = snd (fst cc);
                  log2 = snd cc
              in case err of
                   Some e \<Rightarrow> Returns (Some e, c, log2)
                 | None \<Rightarrow> CreateClient_dial env c serverConf sshConf log2))"

subsection \<open>CreateSession\<close>

text \<open>
  \<open>connect.go\<close>, lines 87 to 113. \<open>CreateSession_checked\<close> is the tail of
  \<open>CreateSession\<close> from the liveness check on. The result session of a return before
  \<open>NewSession\<close> is the zero value of the named result, nil.
\<close>

definition CreateSession_checked ::
  "Env \<Rightarrow> Connect \<Rightarrow> call list
     \<Rightarrow> ((Session option \<times> goerror option) \<times> Connect \<times> call list) outcome" where
  "CreateSession_checked env c log =
     (case CheckClientAlive env c log of
        Panics \<Rightarrow> Panics
      | Diverges \<Rightarrow> Diverges
      | Returns (clientErr, log1) \<Rightarrow>
          (case (if clientErr \<noteq> None then CreateClient env c log1 else Returns (None, c, log1)) of
             Panics \<Rightarrow> Panics
           | Diverges \<Rightarrow> Diverges
           | Returns (Some e, c2, log2) \<Rightarrow> Returns ((None, Some e), c2, log2)
           | Returns (None, c2, log2) \<Rightarrow>
               (case c_Client c2 of
                  None \<Rightarrow> Panics
                | Some client \<Rightarrow>
                    Returns (NewSession env log2 client, c2, log2 @ [CallNewSession client]))))"

definition CreateSession ::
  "Env \<Rightarrow> Connect \<Rightarrow> call list
     \<Rightarrow> ((Session option \<times> goerror option) \<times> Connect \<times> call list) outcome" where
  "CreateSession env c log =
     (if c_Client c = None then
        (case CreateClient env c log of
           Panics \<Rightarrow> Panics
         | Diverges \<Rightarrow> Diverges
         | Returns (Some e, c1, log1) \<Rightarrow> Returns ((None, Some e), c1, log1)
         | Returns (None, c1, log1) \<Rightarrow> CreateSession_checked env c1 log1)
      else CreateSession_checked env c log)"

subsection \<open>Example environments and connections\<close>

text \<open>
  \<open>envBase\<close>: every outside call succeeds. \<open>envUnsupported\<close>: the peer answers
  the keepalive request with a failure. \<open>envStale\<close>: the keepalive request fails with
  \<open>EOF\<close> and no host can be dialed. \<open>envHopDown\<close>: the handshake with the host at
  \<open>10.0.0.1\<close> fails, every other host answers.
\<close>

definition envBase :: Env where
  "envBase =
     \<lparr>CreateSshAgent = (\<lambda>log. None),
      createSshAuth = (\<lambda>log server. ([1], None)),
      ssh_Dial = (\<lambda>log addr sshConf. (Some (Client 1), None)),
      createProxyDialerHttp = (\<lambda>log proxyConf. (Some (Dialer 1), None)),
      createProxyDialerSocks5 = (\<lambda>log proxyConf. (Some (Dialer 2), None)),
      createClientViaProxy =
        (\<lambda>log serverConf sshConf proxyClient proxyDialer. (Some (Client 2), None)),
      SendRequest = (\<lambda>log client. None),
      NewSession = (\<lambda>log client. (Some (Session 1), None)),
      StdinPipe = (\<lambda>log session. (Some (Writer 1), None)),
      outColorStrings = (\<lambda>i server. server),
      StdinFd = 0,
      MakeRaw = (\<lambda>log fd. (Some (TermState 1), None)),
      GetSize = (\<lambda>log fd. (80, 24, None)),
      Getenv_TERM = ''xterm'',
      RequestPty = (\<lambda>log session term h w. None),
      Shell = (\<lambda>log session. None),
      Start = (\<lambda>log session cmd. None),
      GOOS = ''linux'',
      Wait = (\<lambda>log session. None)\<rparr>"

definition envUnsupported :: Env where
  "envUnsupported = envBase\<lparr>SendRequest := (\<lambda>log client. Some (GoError ''request failed''))\<rparr>"

definition envStale :: Env where
  "envStale =
     envBase\<lparr>SendRequest := (\<lambda>log client. Some (GoError ''EOF'')),
             ssh_Dial := (\<lambda>log addr sshConf.
               (None, Some (GoError ''dial tcp 10.0.0.1:22: connect: connection refused'')))\<rparr>"

definition envHopDown :: Env where
  "envHopDown =
     envBase\<lparr>createClientViaProxy :=
       (\<lambda>log serverConf sshConf proxyClient proxyDialer.
          if Addr serverConf = ''10.0.0.1''
          then (None, Some (GoError ''ssh: handshake failed: EOF''))
          else (Some (Client 2), None))\<rparr>"

definition connBastion :: Connect where
  "connBastion =
     \<lparr>c_Server = ''bastion'', c_Conf = cfgBastion, c_Client = Some (Client 0),
      c_IsLocalRc = False, c_LocalRcData = [], c_LocalRcDecodeCmd = [], c_X11 = False\<rparr>"

definition connWeb :: Connect where
  "connWeb =
     \<lparr>c_Server = ''web'', c_Conf = cfgBastion, c_Client = None,
      c_IsLocalRc = False, c_LocalRcData = [], c_LocalRcDecodeCmd = [], c_X11 = False\<rparr>"

section \<open>Properties of the connection life cycle\<close>

text \<open>
  C9. CheckClientAlive returns nil exactly when the keepalive request returns no error or
  an error whose message is "request failed"; any other error of the request is returned
  as it is.
\<close>

theorem CheckClientAlive_verdict:
  "c_Client c = Some client \<Longrightarrow>
   \<exists>res. CheckClientAlive env c log = Returns (res, log @ [CallSendRequest client]) \<and>
     (res = None \<longleftrightarrow>
        (SendRequest env log client = None \<or>
         (\<exists>e. SendRequest env log client = Some e \<and> Error e = ''request failed''))) \<and>
     (res \<noteq> None \<longrightarrow> res = SendRequest env log client)"
  by (auto simp: CheckClientAlive_def Let_def split: option.splits)

theorem CheckClientAlive_verdict_witness:
  "c_Client connBastion = Some (Client 0) \<and>
   SendRequest envUnsupported [] (Client 0) = Some (GoError ''request failed'') \<and>
   CheckClientAlive envUnsupported connBastion [] = Returns (None, [CallSendRequest (Client 0)]) \<and>
   SendRequest envStale [] (Client 0) = Some (GoError ''EOF'') \<and>
   CheckClientAlive envStale connBastion [] =
     Returns (Some (GoError ''EOF''), [CallSendRequest (Client 0)])"
proof -
  have c: "c_Client connBastion = Some (Client 0)" by (simp add: connBastion_def)
  have u: "SendRequest envUnsupported [] (Client 0) = Some (GoError ''request failed'')"
    by (simp add: envUnsupported_def)
  have s: "SendRequest envStale [] (Client 0) = Some (GoError ''EOF'')"
    by (simp add: envStale_def)
  from CheckClientAlive_verdict[OF c, of envUnsupported "[]"] u
  have 1: "CheckClientAlive envUnsupported connBastion [] = Returns (None, [CallSendRequest (Client 0)])"
    by auto
  from CheckClientAlive_verdict[OF c, of envStale "[]"] s
  have 2: "CheckClientAlive envStale connBastion [] =
      Returns (Some (GoError ''EOF''), [CallSendRequest (Client 0)])"
    by auto
  from c u s 1 2 show ?thesis by simp
qed

subsection \<open>The calls made by CreateClient\<close>

text \<open>
  A list of calls is quiet when it holds no entry to \<open>CreateClient\<close> and no
  \<open>NewSession\<close>. One call of \<open>CreateClient\<close> appends its own entry and a quiet
  list.
\<close>

definition quiet :: "call list \<Rightarrow> bool" where
  "quiet evs = (CallCreateClient \<notin> set evs \<and> (\<forall>cl. CallNewSession cl \<notin> set evs))"

lemma quiet_simps [simp]:
  "quiet []"
  "quiet (evs @ evs') = (quiet evs \<and> quiet evs')"
  "quiet (e # evs) = (e \<noteq> CallCreateClient \<and> (\<forall>cl. e \<noteq> CallNewSession cl) \<and> quiet evs)"
  by (auto simp: quiet_def)

lemma createClientConfig_log:
  "snd (createClientConfig env c server log) = log @ [CallCreateSshAuth server]"
  by (simp add: createClientConfig_def Let_def split: prod.splits)

lemma proxyLoop_log:
  "\<exists>evs. snd (proxyLoop env c proxyType proxyList proxyClient proxyDialer err log) = log @ evs \<and> quiet evs"
proof (induction proxyList arbitrary: proxyClient proxyDialer err log)
  case Nil
  then show ?case by simp
next
  case (Cons proxy rest)
  note IH = Cons.IH
  show ?case
  proof (cases "lookupType proxyType proxy = ''http'' \<or> lookupType proxyType proxy = ''https''")
    case True
    let ?pc = "lookupProxy (c_Conf c) proxy"
    let ?r = "createProxyDialerHttp env log ?pc"
    show ?thesis
    proof (cases "snd ?r")
      case None
      from IH[of proxyClient "fst ?r" "snd ?r" "log @ [CallProxyDialerHttp ?pc]"]
      obtain evs where "snd (proxyLoop env c proxyType rest proxyClient (fst ?r) (snd ?r)
          (log @ [CallProxyDialerHttp ?pc])) = (log @ [CallProxyDialerHttp ?pc]) @ evs" "quiet evs"
        by blast
      with True None show ?thesis
        by (intro exI[of _ "CallProxyDialerHttp ?pc # evs"]) (simp add: Let_def)
    next
      case (Some e)
      with True show ?thesis
        by (intro exI[of _ "[CallProxyDialerHttp ?pc]"]) (simp add: Let_def)
    qed
  next
    case nh: False
    show ?thesis
    proof (cases "lookupType proxyType proxy = ''socks5''")
      case True
      let ?pc = "lookupProxy (c_Conf c) proxy"
      let ?r = "createProxyDialerSocks5 env log ?pc"
      show ?thesis
      proof (cases "snd ?r")
        case None
        from IH[of proxyClient "fst ?r" "snd ?r" "log @ [CallProxyDialerSocks5 ?pc]"]
        obtain evs where "snd (proxyLoop env c proxyType rest proxyClient (fst ?r) (snd ?r)
            (log @ [CallProxyDialerSocks5 ?pc])) = (log @ [CallProxyDialerSocks5 ?pc]) @ evs" "quiet evs"
          by blast
        with nh True None show ?thesis
          by (intro exI[of _ "CallProxyDialerSocks5 ?pc # evs"]) (simp add: Let_def)
      next
        case (Some e)
        with nh True show ?thesis
          by (intro exI[of _ "[CallProxyDialerSocks5 ?pc]"]) (simp add: Let_def)
      qed
    next
      case ns: False
      let ?sc = "fst (lookupServer (c_Conf c) proxy)"
      let ?cc = "createClientConfig env c proxy log"
      let ?log1 = "log @ [CallCreateSshAuth proxy]"
      have l1: "snd ?cc = ?log1" by (rule createClientConfig_log)
      show ?thesis
      proof (cases "snd (fst ?cc)")
        case (Some e)
        with nh ns l1 show ?thesis
          by (intro exI[of _ "[CallCreateSshAuth proxy]"]) (simp add: Let_def)
      next
        case None
        let ?r = "createClientViaProxy env ?log1 ?sc (fst (fst ?cc)) proxyClient proxyDialer"
        let ?log2 = "?log1 @ [CallViaProxy ?sc proxyClient proxyDialer]"
        show ?thesis
        proof (cases err)
          case (Some e)
          with nh ns l1 None show ?thesis
            by (intro exI[of _ "[CallCreateSshAuth proxy, CallViaProxy ?sc proxyClient proxyDialer]"])
               (simp add: Let_def)
        next
          case en: None
          from IH[of "fst ?r" proxyDialer err ?log2]
          obtain evs where "snd (proxyLoop env c proxyType rest (fst ?r) proxyDialer err ?log2) = ?log2 @ evs"
            "quiet evs" by blast
          with nh ns l1 None en show ?thesis
            by (intro exI[of _ "CallCreateSshAuth proxy # CallViaProxy ?sc proxyClient proxyDialer # evs"])
               (simp add: Let_def)
        qed
      qed
    qed
  qed
qed

lemma createClientOverProxy_log:
  assumes "createClientOverProxy env c serverConf sshConf log = Returns (e, c', log')"
  shows "\<exists>evs. log' = log @ evs \<and> quiet evs"
proof -
  from assms obtain r where g: "GetProxyList (c_Server c) (c_Conf c) = Some r"
    by (auto simp: createClientOverProxy_def split: option.splits)
  show ?thesis
  proof (cases r)
    case (Inl err)
    with assms g show ?thesis by (simp add: createClientOverProxy_def)
  next
    case (Inr lm)
    obtain proxyList proxyType where lm: "lm = (proxyList, proxyType)" by (cases lm)
    obtain x log1 where pl: "proxyLoop env c proxyType proxyList None None None log = (x, log1)"
      by (cases "proxyLoop env c proxyType proxyList None None None log")
    from proxyLoop_log[of env c proxyType proxyList None None None log] pl
    obtain evs where evs: "log1 = log @ evs" "quiet evs" by auto
    show ?thesis
    proof (cases x)
      case (Inl err)
      with assms g Inr lm pl evs show ?thesis by (auto simp: createClientOverProxy_def)
    next
      case (Inr pd)
      obtain pc d where "pd = (pc, d)" by (cases pd)
      with assms g \<open>r = Inr lm\<close> lm pl evs Inr show ?thesis
        by (auto simp: createClientOverProxy_def Let_def split: option.splits)
    qed
  qed
qed

lemma CreateClient_dial_log:
  assumes "CreateClient_dial env c serverConf sshConf log = Returns (e, c', log')"
  shows "\<exists>evs. log' = log @ evs \<and> quiet evs"
proof -
  let ?sc = "if Port serverConf = [] then serverConf\<lparr>Port := ''22''\<rparr> else serverConf"
  show ?thesis
  proof (cases "Proxy ?sc = [] \<and> ProxyCommand ?sc = []")
    case True
    with assms show ?thesis
      unfolding CreateClient_dial_def Let_def
      by (auto split: option.splits if_splits)
  next
    case False
    with assms obtain e1 c1 where
      "createClientOverProxy env c ?sc sshConf log = Returns (e1, c1, log')"
      unfolding CreateClient_dial_def Let_def
      by (auto split: outcome.splits option.splits if_splits)
    then show ?thesis by (rule createClientOverProxy_log)
  qed
qed

lemma CreateClient_log:
  assumes "CreateClient env c log = Returns (e, c', log')"
  shows "\<exists>evs. log' = log @ CallCreateClient # evs \<and> quiet evs"
proof -
  let ?log = "log @ [CallCreateClient]"
  let ?sc = "fst (lookupServer (c_Conf c) (c_Server c))"
  let ?ua = "SSHAgentUse ?sc \<or> AgentAuth ?sc"
  let ?ae = "if ?ua then CreateSshAgent env ?log else None"
  let ?log1 = "if ?ua then ?log @ [CallCreateSshAgent] else ?log"
  have q1: "\<exists>evs. ?log1 = ?log @ evs \<and> quiet evs" by auto
  show ?thesis
  proof (cases ?ae)
    case (Some err)
    with assms have "log' = ?log1" by (auto simp: CreateClient_def Let_def split: if_splits)
    with q1 show ?thesis by auto
  next
    case None
    let ?cc = "createClientConfig env c (c_Server c) ?log1"
    let ?log2 = "?log1 @ [CallCreateSshAuth (c_Server c)]"
    have l2: "snd ?cc = ?log2" by (rule createClientConfig_log)
    have q2: "\<exists>evs. ?log2 = ?log @ evs \<and> quiet evs" by auto
    show ?thesis
    proof (cases "snd (fst ?cc)")
      case (Some err)
      with assms None l2 have "log' = ?log2"
        by (auto simp: CreateClient_def Let_def split: if_splits)
      with q2 show ?thesis by auto
    next
      case n2: None
      with assms None l2 have "CreateClient_dial env c ?sc (fst (fst ?cc)) ?log2 = Returns (e, c', log')"
        by (auto simp: CreateClient_def Let_def split: if_splits)
      from CreateClient_dial_log[OF this] obtain evs where "log' = ?log2 @ evs" "quiet evs" by auto
      with q2 show ?thesis by auto
    qed
  qed
qed

lemma quiet_count: "quiet evs \<Longrightarrow> filter (\<lambda>e. e = CallCreateClient) evs = []"
  by (induction evs) auto

lemma quiet_no_session: "quiet evs \<Longrightarrow> CallNewSession client \<notin> set evs"
  by (simp add: quiet_def)

lemma CheckClientAlive_log:
  "CheckClientAlive env c log = Returns (r, log') \<Longrightarrow> \<exists>cl. log' = log @ [CallSendRequest cl]"
  by (auto simp: CheckClientAlive_def Let_def split: option.splits if_splits)

text \<open>
  C5. In a call of CreateSession whose liveness probe fails (on the connection it found,
  or on the one it has just created), CreateClient is called once after the probe. If
  that rebuild fails, CreateSession returns the rebuild's error with a nil session, and
  no session has been requested.
\<close>

theorem CreateSession_rebuilds_once:
  assumes start: "c_Client c \<noteq> None \<and> c1 = c \<and> log1 = log \<or>
                  c_Client c = None \<and> CreateClient env c log = Returns (None, c1, log1)"
    and probe: "CheckClientAlive env c1 log1 = Returns (Some perr, log2)"
  shows "(\<forall>rerr c3 log3. CreateClient env c1 log2 = Returns (Some rerr, c3, log3) \<longrightarrow>
            CreateSession env c log = Returns ((None, Some rerr), c3, log3) \<and>
            (\<forall>client. CallNewSession client \<notin> set (drop (length log) log3))) \<and>
         (\<forall>res c' log'. CreateSession env c log = Returns (res, c', log') \<longrightarrow>
            length (filter (\<lambda>e. e = CallCreateClient) (drop (length log2) log')) = 1)"
proof -
  have cs: "CreateSession env c log = CreateSession_checked env c1 log1"
    using start by (auto simp: CreateSession_def)
  from start obtain evs0 where l1: "log1 = log @ evs0" "\<forall>cl. CallNewSession cl \<notin> set evs0"
  proof
    assume "c_Client c \<noteq> None \<and> c1 = c \<and> log1 = log"
    then have "log1 = log @ []" by simp
    then show ?thesis using that by force
  next
    assume "c_Client c = None \<and> CreateClient env c log = Returns (None, c1, log1)"
    then obtain evs where "log1 = log @ CallCreateClient # evs" "quiet evs"
      using CreateClient_log by blast
    then show ?thesis using that[of "CallCreateClient # evs"] by (simp add: quiet_def)
  qed
  from CheckClientAlive_log[OF probe] obtain cl where l2: "log2 = log1 @ [CallSendRequest cl]"
    by auto
  have part1: "CreateSession env c log = Returns ((None, Some rerr), c3, log3) \<and>
            (\<forall>client. CallNewSession client \<notin> set (drop (length log) log3))"
    if rb: "CreateClient env c1 log2 = Returns (Some rerr, c3, log3)" for rerr c3 log3
  proof -
    from rb probe cs have "CreateSession env c log = Returns ((None, Some rerr), c3, log3)"
      by (simp add: CreateSession_checked_def)
    moreover from CreateClient_log[OF rb] obtain evs where
      "log3 = log2 @ CallCreateClient # evs" "quiet evs" by auto
    with l1 l2 have "\<forall>client. CallNewSession client \<notin> set (drop (length log) log3)"
      by (simp add: quiet_def)
    ultimately show ?thesis by simp
  qed
  have part2: "length (filter (\<lambda>e. e = CallCreateClient) (drop (length log2) log')) = 1"
    if ret: "CreateSession env c log = Returns (res, c', log')" for res c' log'
  proof -
    from ret cs probe obtain e c2 l2' where
      cc: "CreateClient env c1 log2 = Returns (e, c2, l2')"
      and l': "log' = l2' \<or> (\<exists>client. log' = l2' @ [CallNewSession client])"
      by (auto simp: CreateSession_checked_def split: outcome.splits option.splits)
    from CreateClient_log[OF cc] obtain evs where
      "l2' = log2 @ CallCreateClient # evs" "quiet evs" by auto
    with l' show ?thesis by (auto simp: quiet_count)
  qed
  from part1 part2 show ?thesis by blast
qed

subsection \<open>Evaluation on the example configuration\<close>

lemma GetProxyList_cfgBastion:
  "GetProxyList ''web'' cfgBastion = Some (Inr ([''bastion''], fmupd ''bastion'' ''ssh'' fmempty))"
proof -
  have "GetProxyList_loop cfgBastion ''web'' [] [] fmempty =
      Some (Inr ([''bastion''], fmupd ''bastion'' ''ssh'' fmempty))"
    by (simp add: GetProxyList_loop.simps preProxyOf_def lookupServer_def
        cfgBastion_def zeroServerConfig_def isTunnelType_def hopType_def)
  then show ?thesis using GetProxyList_of_loop by fastforce
qed

lemma GetProxyList_bastion_direct:
  "GetProxyList ''bastion'' cfgBastion = Some (Inr ([], fmempty))"
proof -
  have "GetProxyList_loop cfgBastion ''bastion'' [] [] fmempty = Some (Inr ([], fmempty))"
    by (simp add: GetProxyList_loop.simps preProxyOf_def lookupServer_def
        cfgBastion_def zeroServerConfig_def isTunnelType_def hopType_def)
  then show ?thesis using GetProxyList_of_loop by fastforce
qed

definition bastionConf :: ServerConfig where
  "bastionConf = zeroServerConfig\<lparr>Addr := ''10.0.0.1''\<rparr>"

definition webConf :: ServerConfig where
  "webConf = zeroServerConfig\<lparr>Addr := ''10.0.0.2'', Proxy := ''bastion''\<rparr>"

lemma lookup_cfgBastion:
  "lookupServer cfgBastion ''web'' = (webConf, True)"
  "lookupServer cfgBastion ''bastion'' = (bastionConf, True)"
  by (simp_all add: lookupServer_def cfgBastion_def webConf_def bastionConf_def)

lemma createClientConfig_envBase_like:
  "createSshAuth env = (\<lambda>log server. ([1], None)) \<Longrightarrow>
   createClientConfig env c server log =
     ((Some \<lparr>ccUser = User (fst (lookupServer (c_Conf c) server)), ccAuth = [1], ccTimeout = 30\<rparr>, None),
      log @ [CallCreateSshAuth server])"
  by (simp add: createClientConfig_def)

lemma auth_envs:
  "createSshAuth envHopDown = (\<lambda>log server. ([1], None))"
  "createSshAuth envStale = (\<lambda>log server. ([1], None))"
  by (simp_all add: envHopDown_def envStale_def envBase_def)

theorem CreateSession_rebuilds_once_witness:
  "c_Client connBastion \<noteq> None \<and>
   CheckClientAlive envStale connBastion [] =
     Returns (Some (GoError ''EOF''), [CallSendRequest (Client 0)]) \<and>
   CreateClient envStale connBastion [CallSendRequest (Client 0)] =
     Returns (Some (GoError ''dial tcp 10.0.0.1:22: connect: connection refused''), connBastion,
       [CallSendRequest (Client 0), CallCreateClient, CallCreateSshAuth ''bastion'',
        CallDial ''10.0.0.1:22'']) \<and>
   CreateSession envStale connBastion [] =
     Returns ((None, Some (GoError ''dial tcp 10.0.0.1:22: connect: connection refused'')),
       connBastion,
       [CallSendRequest (Client 0), CallCreateClient, CallCreateSshAuth ''bastion'',
        CallDial ''10.0.0.1:22'']) \<and>
   length (filter (\<lambda>e. e = CallCreateClient)
     (drop (length [CallSendRequest (Client 0)])
        [CallSendRequest (Client 0), CallCreateClient, CallCreateSshAuth ''bastion'',
         CallDial ''10.0.0.1:22''])) = 1"
proof -
  let ?e = "GoError ''dial tcp 10.0.0.1:22: connect: connection refused''"
  let ?log3 = "[CallSendRequest (Client 0), CallCreateClient, CallCreateSshAuth ''bastion'',
        CallDial ''10.0.0.1:22'']"
  have c: "c_Conf connBastion = cfgBastion" "c_Server connBastion = ''bastion''"
    "c_Client connBastion = Some (Client 0)"
    by (simp_all add: connBastion_def)
  have start: "c_Client connBastion \<noteq> None \<and> connBastion = connBastion \<and> [] = ([] :: call list) \<or>
      c_Client connBastion = None \<and>
      CreateClient envStale connBastion [] = Returns (None, connBastion, [])"
    by (simp add: c)
  have probe: "CheckClientAlive envStale connBastion [] =
      Returns (Some (GoError ''EOF''), [CallSendRequest (Client 0)])"
    by (simp add: CheckClientAlive_def c envStale_def envBase_def)
  have b: "Port bastionConf = []" "Proxy (bastionConf\<lparr>Port := ''22''\<rparr>) = []"
    "ProxyCommand (bastionConf\<lparr>Port := ''22''\<rparr>) = []" "Addr (bastionConf\<lparr>Port := ''22''\<rparr>) = ''10.0.0.1''"
    "Port (bastionConf\<lparr>Port := ''22''\<rparr>) = ''22''"
    "SSHAgentUse bastionConf = False" "AgentAuth bastionConf = False"
    by (simp_all add: bastionConf_def zeroServerConfig_def)
  have ag: "CreateSshAgent envStale = (\<lambda>log. None)"
    by (simp add: envStale_def envBase_def)
  have dial: "ssh_Dial envStale log addr sshConf = (None, Some ?e)" for log addr sshConf
    by (simp add: envStale_def envBase_def)
  have jhp: "JoinHostPort ''10.0.0.1'' ''22'' = ''10.0.0.1:22''"
    by (simp add: JoinHostPort_def)
  have rebuild: "CreateClient envStale connBastion [CallSendRequest (Client 0)] =
      Returns (Some ?e, connBastion, ?log3)"
    by (simp add: CreateClient_def CreateClient_dial_def c lookup_cfgBastion b ag dial jhp
        createClientConfig_envBase_like[OF auth_envs(2)] Let_def)
  from CreateSession_rebuilds_once[OF start probe] rebuild
  have "CreateSession envStale connBastion [] = Returns ((None, Some ?e), connBastion, ?log3)"
    by blast
  with c probe rebuild show ?thesis by simp
qed

subsection \<open>Errors of an SSH hop\<close>

text \<open>
  An iteration of the loop of createClientOverProxy for a hop of kind ssh, entered with a
  nil \<open>err\<close>: whatever error createClientViaProxy returns for the hop, the loop goes
  on to the next hop with the client that call returned.
\<close>

lemma proxyLoop_ssh_hop_error_ignored:
  assumes "lookupType proxyType proxy \<noteq> ''http''" "lookupType proxyType proxy \<noteq> ''https''"
    "lookupType proxyType proxy \<noteq> ''socks5''"
    and "createClientConfig env c proxy log = ((proxySshConf, None), log1)"
  shows "proxyLoop env c proxyType (proxy # rest) proxyClient proxyDialer None log =
         proxyLoop env c proxyType rest
           (fst (createClientViaProxy env log1 (fst (lookupServer (c_Conf c) proxy)) proxySshConf
                   proxyClient proxyDialer))
           proxyDialer None
           (log1 @ [CallViaProxy (fst (lookupServer (c_Conf c) proxy)) proxyClient proxyDialer])"
  using assms by (simp add: Let_def)

text \<open>
  C1. The claim: an error of any hop of the proxy chain, an intermediate SSH hop
  included, is what CreateClient returns. The code does not return it: in
  \<open>cfgBastion\<close> with the environment \<open>envHopDown\<close> the handshake with the hop
  \<open>bastion\<close> fails, the loop goes on with a nil hop client, the target is then dialed
  with neither hop client nor dialer, and CreateClient returns nil with that client
  stored.
\<close>

theorem CreateClient_drops_hop_error:
  "createClientViaProxy envHopDown [CallCreateClient, CallCreateSshAuth ''web'', CallCreateSshAuth ''bastion'']
      bastionConf (Some \<lparr>ccUser = [], ccAuth = [1], ccTimeout = 30\<rparr>) None None =
     (None, Some (GoError ''ssh: handshake failed: EOF'')) \<and>
   CreateClient envHopDown connWeb [] =
     Returns (None, connWeb\<lparr>c_Client := Some (Client 2)\<rparr>,
       [CallCreateClient, CallCreateSshAuth ''web'', CallCreateSshAuth ''bastion'',
        CallViaProxy bastionConf None None,
        CallViaProxy (webConf\<lparr>Port := ''22''\<rparr>) None None])"
proof -
  have v1: "createClientViaProxy envHopDown log bastionConf sshConf pc pd =
      (None, Some (GoError ''ssh: handshake failed: EOF''))" for log sshConf pc pd
    by (simp add: envHopDown_def envBase_def bastionConf_def)
  have v2: "createClientViaProxy envHopDown log (webConf\<lparr>Port := ''22''\<rparr>) sshConf pc pd =
      (Some (Client 2), None)" for log sshConf pc pd
    by (simp add: envHopDown_def envBase_def webConf_def)
  have c: "c_Conf connWeb = cfgBastion" "c_Server connWeb = ''web''" "c_X11 connWeb = False"
    by (simp_all add: connWeb_def)
  have lt: "lookupType (fmupd ''bastion'' ''ssh'' fmempty) ''bastion'' = ''ssh''"
    by (simp add: lookupType_def)
  have loop: "proxyLoop envHopDown connWeb (fmupd ''bastion'' ''ssh'' fmempty) [''bastion''] None None None
        [CallCreateClient, CallCreateSshAuth ''web''] =
      (Inr (None, None),
       [CallCreateClient, CallCreateSshAuth ''web'', CallCreateSshAuth ''bastion'',
        CallViaProxy bastionConf None None])"
    by (simp add: lt c lookup_cfgBastion createClientConfig_envBase_like[OF auth_envs(1)] v1 Let_def)
  have over: "createClientOverProxy envHopDown connWeb (webConf\<lparr>Port := ''22''\<rparr>) sshConf
        [CallCreateClient, CallCreateSshAuth ''web''] =
      Returns (None, connWeb\<lparr>c_Client := Some (Client 2)\<rparr>,
       [CallCreateClient, CallCreateSshAuth ''web'', CallCreateSshAuth ''bastion'',
        CallViaProxy bastionConf None None,
        CallViaProxy (webConf\<lparr>Port := ''22''\<rparr>) None None])" for sshConf
    by (simp add: createClientOverProxy_def c GetProxyList_cfgBastion loop v2 Let_def
        del: proxyLoop.simps)
  have ag: "CreateSshAgent envHopDown = (\<lambda>log. None)"
    by (simp add: envHopDown_def envBase_def)
  have w: "Port webConf = []" "Proxy (webConf\<lparr>Port := ''22''\<rparr>) = ''bastion''"
    "X11 (webConf\<lparr>Port := ''22''\<rparr>) = False" "SSHAgentUse webConf = False" "AgentAuth webConf = False"
    by (simp_all add: webConf_def zeroServerConfig_def)
  have cc: "CreateClient envHopDown connWeb [] =
     Returns (None, connWeb\<lparr>c_Client := Some (Client 2)\<rparr>,
       [CallCreateClient, CallCreateSshAuth ''web'', CallCreateSshAuth ''bastion'',
        CallViaProxy bastionConf None None,
        CallViaProxy (webConf\<lparr>Port := ''22''\<rparr>) None None])"
    by (simp add: CreateClient_def CreateClient_dial_def c lookup_cfgBastion w ag
        createClientConfig_envBase_like[OF auth_envs(1)] over Let_def)
  from v1 cc show ?thesis by simp
qed

section \<open>Interactive terminal sessions\<close>

subsection \<open>runLocalRcShell\<close>

text \<open>\<open>connect.go\<close>, lines 460 to 474.\<close>

text \<open>The two \<open>fmt.Sprintf\<close> command lines; the second replaces the first when a decode
  command is configured.\<close>

definition localRcCommand :: "Connect \<Rightarrow> string" where
  "localRcCommand c =
     (if length (c_LocalRcDecodeCmd c) > 0
      then ''bash --rcfile <(echo '' @ c_LocalRcData c @ '' | '' @ c_LocalRcDecodeCmd c @ '')''
      else ''bash --rcfile <(echo '' @ c_LocalRcData c @
           ''|((base64 --help | grep -q coreutils) && base64 -d <(cat) || base64 -D <(cat) ))'')"

definition runLocalRcShell ::
  "Env \<Rightarrow> Connect \<Rightarrow> Session \<Rightarrow> call list \<Rightarrow> (Session \<times> goerror option) \<times> call list" where
  "runLocalRcShell env c preSession log =
     (let cmd = localRcCommand c
      in ((preSession, Start env log preSession cmd), log @ [CallStart preSession cmd]))"

subsection \<open>ConTerm\<close>

text \<open>
  A \<open>return\<close> of a function that has executed \<open>defer\<close> statements: the deferred calls
  run, the last deferred first, and then the function returns its result.
\<close>

definition return_deferred :: "call list \<Rightarrow> 'a \<Rightarrow> call list \<Rightarrow> 'a \<times> call list" where
  "return_deferred deferred result log = (result, log @ rev deferred)"

text \<open>
  \<open>ConTerm\<close> (\<open>connect.go\<close>, lines 304 to 370), statement by statement. The arguments of the deferred
  \<open>terminal.Restore(fd, state)\<close> are evaluated at the \<open>defer\<close> statement. The
  goroutines for window changes and keepalives are started and not waited for.
\<close>

definition ConTerm :: "Env \<Rightarrow> Connect \<Rightarrow> Session \<Rightarrow> call list \<Rightarrow> goerror option \<times> call list" where
  "ConTerm env c session log =
     (let fd = StdinFd env;
          r = MakeRaw env log fd;
          state = fst r;
          log1 = log @ [CallMakeRaw fd]
      in case snd r of
           Some e \<Rightarrow> return_deferred [] (Some e) log1
         | None \<Rightarrow>
             (let deferred = [CallRestore fd state];
                  g = GetSize env log1 fd;
                  width = fst g;
                  height = fst (snd g);
                  log2 = log1 @ [CallGetSize fd]
              in case snd (snd g) of
                   Some e \<Rightarrow> return_deferred deferred (Some e) log2
                 | None \<Rightarrow>
                     (let term = Getenv_TERM env;
                          ptyErr = RequestPty env log2 session term height width;
                          log3 = log2 @ [CallRequestPty session term height width]
                      in case ptyErr of
                           Some e \<Rightarrow> return_deferred deferred (Some e) log3
                         | None \<Rightarrow>
                             (let sh = (if c_IsLocalRc c then runLocalRcShell env c session log3
                                        else ((session, Shell env log3 session),
                                              log3 @ [CallShell session]));
                                  session1 = fst (fst sh);
                                  shellErr = snd (fst sh);
                                  log4 = snd sh
                              in case shellErr of
                                   Some e \<Rightarrow> return_deferred deferred (Some e) log4
                                 | None \<Rightarrow>
                                     (let log5 = (if GOOS env \<noteq> ''windows''
                                                  then log4 @ [CallNotify, GoWindowChange session1]
                                                  else log4);
                                          log6 = log5 @ [GoSendKeepAlive session1];
                                          waitErr = Wait env log6 session1;
                                          log7 = log6 @ [CallWait session1]
                                      in case waitErr of
                                           Some e \<Rightarrow> return_deferred deferred (Some e) log7
                                         | None \<Rightarrow> return_deferred deferred None log7)))))"

text \<open>An established connection, and the error used by the failing environments.\<close>

definition connTerm :: Connect where
  "connTerm = connBastion\<lparr>c_Client := Some (Client 1)\<rparr>"

definition failed :: goerror where
  "failed = GoError ''EOF''"

text \<open>
  C8. Whenever \<open>terminal.MakeRaw\<close> succeeds, the last call ConTerm makes before it
  returns is \<open>terminal.Restore\<close> with the file descriptor and the state that MakeRaw
  returned, and it makes no other Restore call; this holds on every path: when the shell
  exits normally, and when the size query, the pty request, the shell start (plain or
  with the local rc file) or the wait fails.
\<close>

theorem ConTerm_restores_terminal:
  assumes "MakeRaw env log (StdinFd env) = (state, None)"
  shows "take (length log) (snd (ConTerm env c session log)) = log \<and>
         hd (drop (length log) (snd (ConTerm env c session log))) = CallMakeRaw (StdinFd env) \<and>
         last (snd (ConTerm env c session log)) = CallRestore (StdinFd env) state \<and>
         (\<forall>fd st. CallRestore fd st \<notin> set (butlast (drop (length log) (snd (ConTerm env c session log)))))"
  using assms
  by (simp add: ConTerm_def Let_def return_deferred_def runLocalRcShell_def butlast_append
      split: option.splits)

theorem ConTerm_restores_terminal_witness:
  "MakeRaw envBase [] (StdinFd envBase) = (Some (TermState 1), None) \<and>
   ConTerm envBase connTerm (Session 1) [] =
     (None, [CallMakeRaw 0, CallGetSize 0, CallRequestPty (Session 1) ''xterm'' 24 80,
             CallShell (Session 1), CallNotify, GoWindowChange (Session 1),
             GoSendKeepAlive (Session 1), CallWait (Session 1),
             CallRestore 0 (Some (TermState 1))]) \<and>
   ConTerm (envBase\<lparr>GetSize := (\<lambda>log fd. (0, 0, Some failed))\<rparr>) connTerm (Session 1) [] =
     (Some failed, [CallMakeRaw 0, CallGetSize 0, CallRestore 0 (Some (TermState 1))]) \<and>
   ConTerm (envBase\<lparr>RequestPty := (\<lambda>log s term h w. Some failed)\<rparr>) connTerm (Session 1) [] =
     (Some failed, [CallMakeRaw 0, CallGetSize 0, CallRequestPty (Session 1) ''xterm'' 24 80,
                    CallRestore 0 (Some (TermState 1))]) \<and>
   ConTerm (envBase\<lparr>Shell := (\<lambda>log s. Some failed)\<rparr>) connTerm (Session 1) [] =
     (Some failed, [CallMakeRaw 0, CallGetSize 0, CallRequestPty (Session 1) ''xterm'' 24 80,
                    CallShell (Session 1), CallRestore 0 (Some (TermState 1))]) \<and>
   ConTerm (envBase\<lparr>Start := (\<lambda>log s cmd. Some failed)\<rparr>)
       (connTerm\<lparr>c_IsLocalRc := True, c_LocalRcDecodeCmd := ''base64 -d''\<rparr>) (Session 1) [] =
     (Some failed, [CallMakeRaw 0, CallGetSize 0, CallRequestPty (Session 1) ''xterm'' 24 80,
                    CallStart (Session 1) ''bash --rcfile <(echo  | base64 -d)'',
                    CallRestore 0 (Some (TermState 1))]) \<and>
   ConTerm (envBase\<lparr>Wait := (\<lambda>log s. Some failed)\<rparr>) connTerm (Session 1) [] =
     (Some failed, [CallMakeRaw 0, CallGetSize 0, CallRequestPty (Session 1) ''xterm'' 24 80,
             CallShell (Session 1), CallNotify, GoWindowChange (Session 1),
             GoSendKeepAlive (Session 1), CallWait (Session 1),
             CallRestore 0 (Some (TermState 1))])"
proof -
  have m: "MakeRaw envBase [] (StdinFd envBase) = (Some (TermState 1), None)"
    by (simp add: envBase_def)
  have ok: "ConTerm envBase connTerm (Session 1) [] =
     (None, [CallMakeRaw 0, CallGetSize 0, CallRequestPty (Session 1) ''xterm'' 24 80,
             CallShell (Session 1), CallNotify, GoWindowChange (Session 1),
             GoSendKeepAlive (Session 1), CallWait (Session 1),
             CallRestore 0 (Some (TermState 1))])"
    by (simp add: ConTerm_def Let_def return_deferred_def envBase_def connTerm_def connBastion_def)
  from ConTerm_restores_terminal[OF m, of connTerm "Session 1"] ok
  have "last (snd (ConTerm envBase connTerm (Session 1) [])) = CallRestore 0 (Some (TermState 1))"
    by (simp add: envBase_def)
  with m ok show ?thesis
    by (simp add: ConTerm_def Let_def return_deferred_def runLocalRcShell_def localRcCommand_def
        envBase_def connTerm_def connBastion_def failed_def)
qed

section \<open>Command output\<close>

subsection \<open>RunCmdWithOutput\<close>

text \<open>\<open>connect.go\<close>, lines 263 to 301.\<close>

definition newline :: char where
  "newline = CHR 0x0A"

text \<open>
  \<open>bytes.Buffer.ReadBytes\<close>: the bytes up to and including the first delimiter, the
  bytes left in the buffer, and whether the error is \<open>io.EOF\<close> (the buffer ended before
  a delimiter; the bytes read are returned all the same).
\<close>

fun ReadBytes :: "string \<Rightarrow> char \<Rightarrow> string \<times> string \<times> bool" where
  "ReadBytes [] delim = ([], [], True)"
| "ReadBytes (b # bs) delim =
     (if b = delim then ([b], bs, False)
      else (let r = ReadBytes bs delim in (b # fst r, fst (snd r), snd (snd r))))"

lemma ReadBytes_append: "fst (ReadBytes buf d) @ fst (snd (ReadBytes buf d)) = buf"
  by (induction buf) (auto simp: Let_def)

lemma ReadBytes_rest_le: "length (fst (snd (ReadBytes buf d))) \<le> length buf"
  by (induction buf) (auto simp: Let_def)

lemma ReadBytes_rest_length: "buf \<noteq> [] \<Longrightarrow> length (fst (snd (ReadBytes buf d))) < length buf"
  using ReadBytes_rest_le[of "tl buf" d] by (cases buf) (auto simp: Let_def)

lemma ReadBytes_not_eof_nonempty: "\<not> snd (snd (ReadBytes buf d)) \<Longrightarrow> buf \<noteq> []"
  by (cases buf) auto

text \<open>
  The command runs in its own goroutine and writes to \<open>outputBuf\<close> while the loop
  \<open>GetOutputLoop\<close> runs. A run of the loop is fixed by \<open>arrivals\<close>, which lists for
  each pass the bytes that reached the buffer since the previous pass (none: \<open>[]\<close>),
  for all passes but those after the last arrival. On a pass with a non-empty buffer
  the loop reads one line and sends it (the error of \<open>ReadBytes\<close> is discarded); on a
  pass with an empty buffer it waits in the \<open>select\<close>: the timer fires while arrivals
  remain, and \<open>isExit\<close> is received once they are exhausted. The result is the buffer
  and the chunks sent on \<open>outputChan\<close>.
\<close>

function GetOutputLoop :: "string \<Rightarrow> string list \<Rightarrow> string list \<Rightarrow> string \<times> string list" where
  "GetOutputLoop outputBuf [] out =
     (if length outputBuf > 0
      then (let r = ReadBytes outputBuf newline
            in GetOutputLoop (fst (snd r)) [] (out @ [fst r]))
      else (outputBuf, out))"
| "GetOutputLoop outputBuf (w # arrivals) out =
     (if length (outputBuf @ w) > 0
      then (let r = ReadBytes (outputBuf @ w) newline
            in GetOutputLoop (fst (snd r)) arrivals (out @ [fst r]))
      else GetOutputLoop (outputBuf @ w) arrivals out)"
  by pat_completeness auto
termination
  by (relation "measures [\<lambda>(buf, arrivals, out). length arrivals, \<lambda>(buf, arrivals, out). length buf]")
     (auto simp: ReadBytes_rest_length)

declare GetOutputLoop.simps [simp del]

text \<open>The loop of the "last check": a chunk is sent unless \<open>ReadBytes\<close> reports
  \<open>io.EOF\<close>, which ends the loop.\<close>

function lastCheck :: "string \<Rightarrow> string list \<Rightarrow> string list" where
  "lastCheck outputBuf out =
     (let r = ReadBytes outputBuf newline
      in if \<not> snd (snd r) then lastCheck (fst (snd r)) (out @ [fst r]) else out)"
  by pat_completeness auto
termination
  by (relation "measure (\<lambda>(buf, out). length buf)")
     (auto simp: ReadBytes_rest_length ReadBytes_not_eof_nonempty)

declare lastCheck.simps [simp del]

text \<open>
  \<open>late\<close> holds the bytes the command writes after the loop has last found the
  buffer empty and before the loop receives \<open>isExit\<close>: they are in the buffer when the
  last check starts.
\<close>

definition RunCmdWithOutput :: "string list \<Rightarrow> string \<Rightarrow> string list" where
  "RunCmdWithOutput arrivals late =
     (let r = GetOutputLoop [] arrivals [];
          outputBuf = fst r @ late
      in if length outputBuf > 0 then lastCheck outputBuf (snd r) else snd r)"

text \<open>The bytes after the last line terminator.\<close>

definition lastPartial :: "string \<Rightarrow> string" where
  "lastPartial s = rev (takeWhile (\<lambda>b. b \<noteq> newline) (rev s))"

section \<open>Running a command on several hosts\<close>

text \<open>The fields of \<open>Run\<close> that \<open>cmd\<close> and \<open>cmdRun\<close> read.\<close>

record Run =
  r_ServerList :: "string list"
  r_IsParallel :: bool
  r_StdinData :: string
  r_ExecCmd :: "string list"
  r_IsX11 :: bool

text \<open>What a host task does to the channels and streams it shares with \<open>cmd\<close>.\<close>

datatype taskEvent =
    Stderr string
  | X11Forwarder
  | SetStdin string
  | SendInputWriter "Writer option"
  | SendOutputChan string
  | CloseOutputChan

text \<open>
  \<open>cmdRun\<close> (lines 97 to 133 of the file of \<open>cmd\<close>) for one host; \<open>arrivals\<close> and \<open>late\<close> fix how the output of the
  command reaches the buffer. A nil session with a nil error makes the first use of the
  session panic.
\<close>

definition cmdRun ::
  "Env \<Rightarrow> Run \<Rightarrow> Connect \<Rightarrow> int \<Rightarrow> call list \<Rightarrow> string list \<Rightarrow> string
     \<Rightarrow> (taskEvent list \<times> Connect \<times> call list) outcome" where
  "cmdRun env r conn serverListIndex log arrivals late =
     (case CreateSession env conn log of
        Panics \<Rightarrow> Panics
      | Diverges \<Rightarrow> Diverges
      | Returns ((session, err), conn1, log1) \<Rightarrow>
          (case err of
             Some e \<Rightarrow>
               Returns
                 ([Stderr (''cannot connect session '' @
                           outColorStrings env serverListIndex (c_Server conn1) @ '', '' @
                           Error e @ [newline]),
                   CloseOutputChan],
                  conn1, log1)
           | None \<Rightarrow>
               (case session of
                  None \<Rightarrow> Panics
                | Some s \<Rightarrow>
                    (let x11 = (if r_IsX11 r \<or> c_X11 conn1 then [X11Forwarder] else []);
                         stdin =
                           (if length (r_StdinData r) > 0 then ([SetStdin (r_StdinData r)], log1)
                            else if r_IsParallel r \<or> length (r_ServerList r) = 1
                            then ([SendInputWriter (fst (StdinPipe env log1 s))],
                                  log1 @ [CallStdinPipe s])
                            else ([], log1))
                     in Returns
                          (x11 @ fst stdin @
                           map SendOutputChan (RunCmdWithOutput arrivals late) @
                           [CloseOutputChan],
                           conn1, snd stdin)))))"

text \<open>The condition under which \<open>cmd\<close> starts the goroutine that collects the writers.\<close>

definition inputBroadcast :: "Run \<Rightarrow> bool" where
  "inputBroadcast r =
     (length (r_StdinData r) = 0 \<and> (r_IsParallel r \<or> length (r_ServerList r) = 1))"

text \<open>The writers a task sends on \<open>inputWriter\<close>.\<close>

fun sentWriters :: "taskEvent list \<Rightarrow> Writer option list" where
  "sentWriters [] = []"
| "sentWriters (SendInputWriter w # evs) = w # sentWriters evs"
| "sentWriters (e # evs) = sentWriters evs"

text \<open>
  The collecting loop \<open>for i := 0; i < len(r.ServerList); i++ { writer := <-inputWriter
  ... }\<close> on the writers that are ever sent: it ends with \<open>n\<close> writers, or blocks on
  the channel for ever (\<open>None\<close>) when fewer are sent.
\<close>

definition collectWriters :: "nat \<Rightarrow> Writer option list \<Rightarrow> Writer option list option" where
  "collectWriters n sent = (if n \<le> length sent then Some (take n sent) else None)"

subsection \<open>Two hosts, one of them down\<close>

definition cfgTwo :: Config where
  "cfgTwo =
     \<lparr>conf_Server =
        fmupd ''up'' (zeroServerConfig\<lparr>Addr := ''10.0.0.3''\<rparr>)
          (fmupd ''down'' (zeroServerConfig\<lparr>Addr := ''10.0.0.1''\<rparr>) fmempty),
      conf_Proxy = fmempty\<rparr>"

definition envOneDown :: Env where
  "envOneDown =
     envBase\<lparr>ssh_Dial := (\<lambda>log addr sshConf.
        if addr = ''10.0.0.1:22''
        then (None, Some (GoError ''dial tcp 10.0.0.1:22: connect: connection refused''))
        else (Some (Client 1), None))\<rparr>"

definition connUp :: Connect where
  "connUp =
     \<lparr>c_Server = ''up'', c_Conf = cfgTwo, c_Client = None,
      c_IsLocalRc = False, c_LocalRcData = [], c_LocalRcDecodeCmd = [], c_X11 = False\<rparr>"

definition connDown :: Connect where
  "connDown =
     \<lparr>c_Server = ''down'', c_Conf = cfgTwo, c_Client = None,
      c_IsLocalRc = False, c_LocalRcData = [], c_LocalRcDecodeCmd = [], c_X11 = False\<rparr>"

definition runBoth :: Run where
  "runBoth =
     \<lparr>r_ServerList = [''up'', ''down''], r_IsParallel = True, r_StdinData = [],
      r_ExecCmd = [''hostname''], r_IsX11 = False\<rparr>"

section \<open>Properties of the output stream\<close>

lemma ReadBytes_eof: "snd (snd (ReadBytes buf d)) \<Longrightarrow> d \<notin> set buf \<and> fst (ReadBytes buf d) = buf"
  by (induction buf) (auto simp: Let_def split: if_splits)

lemma ReadBytes_line: "\<not> snd (snd (ReadBytes buf d)) \<Longrightarrow> \<exists>xs. fst (ReadBytes buf d) = xs @ [d]"
proof (induction buf)
  case Nil
  then show ?case by simp
next
  case (Cons b bs)
  show ?case
  proof (cases "b = d")
    case True
    then show ?thesis by simp
  next
    case False
    with Cons obtain xs where "fst (ReadBytes bs d) = xs @ [d]" by (auto simp: Let_def)
    with False show ?thesis by (intro exI[of _ "b # xs"]) (simp add: Let_def)
  qed
qed

lemma takeWhile_all: "\<forall>x\<in>set xs. P x \<Longrightarrow> takeWhile P xs = xs"
  by (induction xs) auto

lemma lastPartial_line: "lastPartial ((xs @ [newline]) @ rest) = lastPartial rest"
  by (auto simp: lastPartial_def takeWhile_append takeWhile_all)

lemma lastPartial_no_newline:
  assumes "newline \<notin> set s"
  shows "lastPartial s = s"
proof -
  from assms have "\<forall>x\<in>set (rev s). x \<noteq> newline" by auto
  then have "takeWhile (\<lambda>b. b \<noteq> newline) (rev s) = rev s" by (rule takeWhile_all)
  then show ?thesis by (simp only: lastPartial_def rev_rev_ident)
qed

lemma GetOutputLoop_result:
  "fst (GetOutputLoop buf arrivals out) = [] \<and>
   concat (snd (GetOutputLoop buf arrivals out)) = concat out @ buf @ concat arrivals"
proof (induction buf arrivals out rule: GetOutputLoop.induct)
  case (1 outputBuf out)
  show ?case
  proof (cases "length outputBuf > 0")
    case True
    with "1.IH"[OF True refl] ReadBytes_append[of outputBuf newline]
    show ?thesis by (simp add: GetOutputLoop.simps(1)[of outputBuf out] Let_def)
  next
    case False
    then have "outputBuf = []" by simp
    then show ?thesis by (simp add: GetOutputLoop.simps(1)[of "[]" out])
  qed
next
  case (2 outputBuf w arrivals out)
  show ?case
  proof (cases "length (outputBuf @ w) > 0")
    case True
    with "2.IH"(1)[OF True refl] ReadBytes_append[of "outputBuf @ w" newline]
    show ?thesis
      by (simp add: GetOutputLoop.simps(2)[of outputBuf w arrivals out] Let_def)
  next
    case False
    then have e: "outputBuf = []" "w = []" by simp_all
    from "2.IH"(2)[OF False] e
    show ?thesis by (simp add: GetOutputLoop.simps(2)[of "[]" "[]" arrivals out])
  qed
qed

lemma lastCheck_concat:
  "concat (lastCheck buf out) @ lastPartial buf = concat out @ buf"
proof (induction buf out rule: lastCheck.induct)
  case (1 outputBuf out)
  let ?r = "ReadBytes outputBuf newline"
  show ?case
  proof (cases "snd (snd ?r)")
    case True
    with ReadBytes_eof[OF True] show ?thesis
      by (simp add: lastCheck.simps[of outputBuf out] Let_def lastPartial_no_newline)
  next
    case False
    from ReadBytes_line[OF False] obtain xs where xs: "fst ?r = xs @ [newline]" by auto
    with ReadBytes_append[of outputBuf newline]
    have buf: "outputBuf = (xs @ [newline]) @ fst (snd ?r)" by simp
    have lp: "lastPartial outputBuf = lastPartial (fst (snd ?r))"
      by (subst buf) (rule lastPartial_line)
    from "1.IH"[OF refl False] have
      "concat (lastCheck (fst (snd ?r)) (out @ [fst ?r])) @ lastPartial (fst (snd ?r)) =
       concat (out @ [fst ?r]) @ fst (snd ?r)" .
    with False lp ReadBytes_append[of outputBuf newline] show ?thesis
      by (simp add: lastCheck.simps[of outputBuf out] Let_def)
  qed
qed

lemma RunCmdWithOutput_concat:
  "concat (RunCmdWithOutput arrivals late) @ lastPartial late = concat arrivals @ late"
proof (cases "late = []")
  case True
  then show ?thesis
    using GetOutputLoop_result[of "[]" arrivals "[]"]
    by (simp add: RunCmdWithOutput_def Let_def lastPartial_def)
next
  case False
  then show ?thesis
    using GetOutputLoop_result[of "[]" arrivals "[]"] lastCheck_concat[of late "snd (GetOutputLoop [] arrivals [])"]
    by (simp add: RunCmdWithOutput_def Let_def)
qed

text \<open>
  What RunCmdWithOutput sends, in order, is the combined output of the command without
  the bytes after the last line terminator of the part that arrived late; nothing is
  lost when that part is empty or ends with a line terminator.
\<close>

lemma RunCmdWithOutput_complete_lines:
  assumes "late = [] \<or> last late = newline"
  shows "concat (RunCmdWithOutput arrivals late) = concat arrivals @ late"
proof -
  have "lastPartial late = []"
  proof (cases "late = []")
    case True
    then show ?thesis by (simp add: lastPartial_def)
  next
    case False
    with assms obtain xs where "late = xs @ [newline]" by (metis append_butlast_last_id)
    then show ?thesis by (simp add: lastPartial_def)
  qed
  with RunCmdWithOutput_concat[of arrivals late] show ?thesis by simp
qed

text \<open>
  C3. The claim: the chunks sent on the output channel, concatenated, are the combined
  output of the command, also when it does not end with a line terminator. The code
  loses bytes: when the output \<open>hi\<close> reaches the buffer after the loop has last found
  it empty, the last check reads \<open>hi\<close> together with \<open>io.EOF\<close> and sends nothing;
  after the line \<open>a\<close>, a late \<open>b\<close> is lost in the same way.
\<close>

theorem RunCmdWithOutput_drops_partial_line:
  "RunCmdWithOutput [] ''hi'' = [] \<and>
   concat (RunCmdWithOutput [] ''hi'') \<noteq> concat [] @ ''hi'' \<and>
   RunCmdWithOutput [''a'' @ [newline]] ''b'' = [''a'' @ [newline]] \<and>
   concat (RunCmdWithOutput [''a'' @ [newline]] ''b'') \<noteq> concat [''a'' @ [newline]] @ ''b''"
  by (simp add: RunCmdWithOutput_def GetOutputLoop.simps lastCheck.simps newline_def Let_def)

section \<open>Properties of the host tasks\<close>

text \<open>
  A task whose session cannot be created writes a message and closes its output channel;
  a task whose session is created sends one writer when input is broadcast.
\<close>

lemma cmdRun_session_error:
  assumes "CreateSession env conn log = Returns ((session, Some e), conn1, log1)"
  shows "\<exists>msg. cmdRun env r conn i log arrivals late = Returns ([Stderr msg, CloseOutputChan], conn1, log1)"
  using assms by (simp add: cmdRun_def)

lemma cmdRun_session_ok:
  assumes "CreateSession env conn log = Returns ((Some s, None), conn1, log1)"
    and "inputBroadcast r"
    and "cmdRun env r conn i log arrivals late = Returns (evs, conn2, log2)"
  shows "sentWriters evs = [fst (StdinPipe env log1 s)]"
proof -
  have sw: "sentWriters (map SendOutputChan xs @ [CloseOutputChan]) = []" for xs
    by (induction xs) auto
  from assms show ?thesis
    by (auto simp: cmdRun_def inputBroadcast_def Let_def sw)
qed

text \<open>
  C6. The claim: when input is broadcast, every host task sends one writer on
  \<open>inputWriter\<close>, whether its session is created or not. The code does not: with the
  hosts \<open>up\<close> and \<open>down\<close> in parallel mode and no piped input, the task of
  \<open>down\<close>, whose dial fails, returns after closing its output channel and sends no
  writer; the task of \<open>up\<close> sends one; the collecting loop, which waits for two,
  never ends.
\<close>

theorem cmdRun_failed_host_sends_no_writer:
  "inputBroadcast runBoth \<and>
   cmdRun envOneDown runBoth connDown 1 [] [] [] =
     Returns ([Stderr (''cannot connect session down, dial tcp 10.0.0.1:22: connect: connection refused'' @ [newline]),
               CloseOutputChan],
              connDown, [CallCreateClient, CallCreateSshAuth ''down'', CallDial ''10.0.0.1:22'']) \<and>
   cmdRun envOneDown runBoth connUp 0 [] [''up'' @ [newline]] [] =
     Returns ([SendInputWriter (Some (Writer 1)), SendOutputChan (''up'' @ [newline]), CloseOutputChan],
              connUp\<lparr>c_Client := Some (Client 1)\<rparr>,
              [CallCreateClient, CallCreateSshAuth ''up'', CallDial ''10.0.0.3:22'',
               CallSendRequest (Client 1), CallNewSession (Client 1), CallStdinPipe (Session 1)]) \<and>
   sentWriters [Stderr (''cannot connect session down, dial tcp 10.0.0.1:22: connect: connection refused'' @ [newline]),
               CloseOutputChan] = [] \<and>
   collectWriters (length (r_ServerList runBoth)) [Some (Writer 1)] = None"
proof -
  let ?e = "GoError ''dial tcp 10.0.0.1:22: connect: connection refused''"
  have ib: "inputBroadcast runBoth" by (simp add: inputBroadcast_def runBoth_def)
  have auth: "createSshAuth envOneDown = (\<lambda>log server. ([1], None))"
    by (simp add: envOneDown_def envBase_def)
  have ag: "CreateSshAgent envOneDown = (\<lambda>log. None)"
    by (simp add: envOneDown_def envBase_def)
  have lk: "lookupServer cfgTwo ''down'' = (zeroServerConfig\<lparr>Addr := ''10.0.0.1''\<rparr>, True)"
    "lookupServer cfgTwo ''up'' = (zeroServerConfig\<lparr>Addr := ''10.0.0.3''\<rparr>, True)"
    by (simp_all add: lookupServer_def cfgTwo_def)
  have d: "c_Conf connDown = cfgTwo" "c_Server connDown = ''down''" "c_Client connDown = None"
    by (simp_all add: connDown_def)
  have u: "c_Conf connUp = cfgTwo" "c_Server connUp = ''up''" "c_Client connUp = None"
    "c_X11 connUp = False"
    by (simp_all add: connUp_def)
  have dial: "ssh_Dial envOneDown log ''10.0.0.1:22'' sshConf = (None, Some ?e)"
    "ssh_Dial envOneDown log ''10.0.0.3:22'' sshConf = (Some (Client 1), None)" for log sshConf
    by (simp_all add: envOneDown_def envBase_def)
  have env: "SendRequest envOneDown log cl = None"
    "NewSession envOneDown log cl = (Some (Session 1), None)"
    "StdinPipe envOneDown log s = (Some (Writer 1), None)"
    "outColorStrings envOneDown i server = server" for log cl s i server
    by (simp_all add: envOneDown_def envBase_def)
  have ccd: "CreateClient envOneDown connDown [] =
      Returns (Some ?e, connDown, [CallCreateClient, CallCreateSshAuth ''down'', CallDial ''10.0.0.1:22''])"
    by (simp add: CreateClient_def CreateClient_dial_def d lk ag dial JoinHostPort_def
        createClientConfig_envBase_like[OF auth] zeroServerConfig_def Let_def)
  have csd: "CreateSession envOneDown connDown [] =
      Returns ((None, Some ?e), connDown, [CallCreateClient, CallCreateSshAuth ''down'', CallDial ''10.0.0.1:22''])"
    by (simp add: CreateSession_def d ccd)
  have down: "cmdRun envOneDown runBoth connDown 1 [] [] [] =
     Returns ([Stderr (''cannot connect session down, dial tcp 10.0.0.1:22: connect: connection refused'' @ [newline]),
               CloseOutputChan],
              connDown, [CallCreateClient, CallCreateSshAuth ''down'', CallDial ''10.0.0.1:22''])"
    by (simp add: cmdRun_def csd d env)
  have ccu: "CreateClient envOneDown connUp [] =
      Returns (None, connUp\<lparr>c_Client := Some (Client 1)\<rparr>,
        [CallCreateClient, CallCreateSshAuth ''up'', CallDial ''10.0.0.3:22''])"
    by (simp add: CreateClient_def CreateClient_dial_def u lk ag dial JoinHostPort_def
        createClientConfig_envBase_like[OF auth] zeroServerConfig_def Let_def)
  have csu: "CreateSession envOneDown connUp [] =
      Returns ((Some (Session 1), None), connUp\<lparr>c_Client := Some (Client 1)\<rparr>,
        [CallCreateClient, CallCreateSshAuth ''up'', CallDial ''10.0.0.3:22'',
         CallSendRequest (Client 1), CallNewSession (Client 1)])"
    by (simp add: CreateSession_def u ccu CreateSession_checked_def CheckClientAlive_def env)
  have out: "RunCmdWithOutput [[CHR ''u'', CHR ''p'', newline]] [] = [[CHR ''u'', CHR ''p'', newline]]"
    by (simp add: RunCmdWithOutput_def GetOutputLoop.simps newline_def Let_def)
  have up: "cmdRun envOneDown runBoth connUp 0 [] [''up'' @ [newline]] [] =
     Returns ([SendInputWriter (Some (Writer 1)), SendOutputChan (''up'' @ [newline]), CloseOutputChan],
              connUp\<lparr>c_Client := Some (Client 1)\<rparr>,
              [CallCreateClient, CallCreateSshAuth ''up'', CallDial ''10.0.0.3:22'',
               CallSendRequest (Client 1), CallNewSession (Client 1), CallStdinPipe (Session 1)])"
    by (simp add: cmdRun_def csu out u runBoth_def env)
  have cw: "collectWriters (length (r_ServerList runBoth)) [Some (Writer 1)] = None"
    by (simp add: collectWriters_def runBoth_def)
  from ib down up cw show ?thesis by simp
qed

end
